theory Spec2Isabelle
  imports Complex_Main "HOL-Library.Char_ord" "HOL-Library.List_Lexorder"
begin

section \<open>Values and errors\<close>

text \<open>
  A JavaScript string is modelled as a \<^typ>\<open>string\<close>: a list of code units, of which
  Isabelle's \<^typ>\<open>char\<close> covers U+0000 to U+00FF. A thrown value is a record of what the
  source observes of it: the class name set by \<open>AppError\<close> (\<open>this.name\<close>), the \<open>code\<close>
  and \<open>message\<close> properties, the HTTP status of an \<open>AppError\<close>, and whether it is an
  instance of \<open>AggregateError\<close> (src/lib/errors.ts).
\<close>

record JsError =
  errName :: string
  errCode :: "string option"
  errMessage :: "string option"
  statusCode :: "nat option"
  instanceofAggregateError :: bool

definition Error :: "string \<Rightarrow> JsError" where
  "Error msg = \<lparr>errName = ''Error'', errCode = None, errMessage = Some msg,
     statusCode = None, instanceofAggregateError = False\<rparr>"

definition AppError :: "string \<Rightarrow> string \<Rightarrow> string \<Rightarrow> nat \<Rightarrow> JsError" where
  "AppError cls c msg st = \<lparr>errName = cls, errCode = Some c, errMessage = Some msg,
     statusCode = Some st, instanceofAggregateError = False\<rparr>"

definition NotFoundError :: "string \<Rightarrow> JsError" where
  "NotFoundError resource = AppError ''NotFoundError'' ''NOT_FOUND'' (resource @ '' not found'') 404"

text \<open>\<open>String.prototype.startsWith\<close> and \<open>String.prototype.includes\<close>.\<close>

fun startsWith :: "'a list \<Rightarrow> 'a list \<Rightarrow> bool" where
  "startsWith s [] = True"
| "startsWith [] (p # ps) = False"
| "startsWith (c # cs) (p # ps) = (c = p \<and> startsWith cs ps)"

fun str_includes :: "'a list \<Rightarrow> 'a list \<Rightarrow> bool" where
  "str_includes [] p = (p = [])"
| "str_includes (c # cs) p = (startsWith (c # cs) p \<or> str_includes cs p)"

text \<open>Truthiness of a nullable string: \<open>null\<close>, \<open>undefined\<close> and \<open>''\<close> are falsy.\<close>

definition truthy :: "string option \<Rightarrow> bool" where
  "truthy v = (case v of None \<Rightarrow> False | Some s \<Rightarrow> s \<noteq> [])"

section \<open>Entity store\<close>

text \<open>
  The Prisma schema is not part of the sources; the rows carry the fields that the
  repositories and services read and write (src/repositories/deployment.repository.ts,
  the project repository, docs/HOW-IT-WORKS.md, data model). Field \<open>id\<close> is written
  \<open>pid\<close> for a project and \<open>did\<close> for a deployment, \<open>name\<close> and \<open>type\<close> of a project
  \<open>pname\<close> and \<open>ptype\<close>. Times are numbers of milliseconds. The engine-maintained
  columns \<open>createdAt\<close> and \<open>updatedAt\<close> are left out.
\<close>

datatype DeploymentStatus = QUEUED | BUILDING | DEPLOYED | FAILED

datatype BuildStep = CLONING | BUILDING_IMAGE | STARTING

record Project =
  pid :: string
  userId :: string
  pname :: string
  slug :: string
  githubUrl :: "string option"
  ptype :: string
  branch :: string

record Deployment =
  did :: string
  projectId :: string
  status :: DeploymentStatus
  buildStep :: "BuildStep option"
  containerPort :: "nat option"
  subdomain :: "string option"
  logs :: "string option"
  startedAt :: "nat option"
  completedAt :: "nat option"

record Db =
  projects :: "Project list"
  deployments :: "Deployment list"

text \<open>
  The argument of \<open>DeploymentRepository.update\<close>: a partial pick of the columns
  \<open>status\<close>, \<open>containerPort\<close>, \<open>subdomain\<close>, \<open>buildStep\<close>, \<open>startedAt\<close>, \<open>completedAt\<close>.
  \<open>None\<close> is an absent key; for a nullable column \<open>Some None\<close> writes \<open>null\<close>.
  The type has no key for \<open>logs\<close>.
\<close>

record DeploymentUpdate =
  u_status :: "DeploymentStatus option"
  u_containerPort :: "nat option option"
  u_subdomain :: "string option option"
  u_buildStep :: "BuildStep option option"
  u_startedAt :: "nat option option"
  u_completedAt :: "nat option option"

definition noChange :: DeploymentUpdate where
  "noChange = \<lparr>u_status = None, u_containerPort = None, u_subdomain = None,
     u_buildStep = None, u_startedAt = None, u_completedAt = None\<rparr>"

definition orKeep :: "'a option \<Rightarrow> 'a \<Rightarrow> 'a" where
  "orKeep new old = (case new of None \<Rightarrow> old | Some v \<Rightarrow> v)"

definition applyUpdate :: "DeploymentUpdate \<Rightarrow> Deployment \<Rightarrow> Deployment" where
  "applyUpdate u d = d\<lparr>
     status := orKeep (u_status u) (status d),
     containerPort := orKeep (u_containerPort u) (containerPort d),
     subdomain := orKeep (u_subdomain u) (subdomain d),
     buildStep := orKeep (u_buildStep u) (buildStep d),
     startedAt := orKeep (u_startedAt u) (startedAt d),
     completedAt := orKeep (u_completedAt u) (completedAt d)\<rparr>"

text \<open>\<open>ProjectRepository.findById\<close> and \<open>DeploymentRepository.findById\<close>.\<close>

definition findProjectById :: "Db \<Rightarrow> string \<Rightarrow> Project option" where
  "findProjectById db i = find (\<lambda>p. pid p = i) (projects db)"

definition findById :: "Db \<Rightarrow> string \<Rightarrow> Deployment option" where
  "findById db i = find (\<lambda>d. did d = i) (deployments db)"

text \<open>
  \<open>findByIdWithProject\<close>: the row with its project included. The relation is required,
  so the store always holds the project of a deployment; a row without one is not returned.
\<close>

definition findByIdWithProject :: "Db \<Rightarrow> string \<Rightarrow> (Deployment \<times> Project) option" where
  "findByIdWithProject db i =
     (case findById db i of
        None \<Rightarrow> None
      | Some d \<Rightarrow> (case findProjectById db (projectId d) of
                    None \<Rightarrow> None
                  | Some p \<Rightarrow> Some (d, p)))"

text \<open>
  \<open>DeploymentRepository.create\<close>: the identifier is generated by the store and is a
  parameter here; every other column starts at its default.
\<close>

definition newDeployment :: "string \<Rightarrow> string \<Rightarrow> DeploymentStatus \<Rightarrow> Deployment" where
  "newDeployment newId p st = \<lparr>did = newId, projectId = p, status = st, buildStep = None,
     containerPort = None, subdomain = None, logs = None, startedAt = None,
     completedAt = None\<rparr>"

definition create :: "Db \<Rightarrow> string \<Rightarrow> string \<Rightarrow> DeploymentStatus option \<Rightarrow> Db \<times> Deployment" where
  "create db newId p st =
     (let d = newDeployment newId p (case st of None \<Rightarrow> QUEUED | Some s \<Rightarrow> s)
      in (db\<lparr>deployments := deployments db @ [d]\<rparr>, d))"

text \<open>
  \<open>DeploymentRepository.update\<close>: \<open>prisma.deployment.update\<close> rejects when no row has the
  identifier. Every caller discards the returned row, so the new store is the result.
\<close>

definition recordNotFound :: JsError where
  "recordNotFound = \<lparr>errName = ''PrismaClientKnownRequestError'', errCode = Some ''P2025'',
     errMessage = Some ''Record to update not found.'', statusCode = None,
     instanceofAggregateError = False\<rparr>"

definition update :: "Db \<Rightarrow> string \<Rightarrow> DeploymentUpdate \<Rightarrow> JsError + Db" where
  "update db i u =
     (case findById db i of
        None \<Rightarrow> Inl recordNotFound
      | Some _ \<Rightarrow> Inr (db\<lparr>deployments :=
                    map (\<lambda>d. if did d = i then applyUpdate u d else d) (deployments db)\<rparr>))"

text \<open>\<open>DeploymentRepository.clearSubdomainForOtherDeployments\<close>: one \<open>updateMany\<close>.\<close>

definition clearSubdomainForOtherDeployments :: "Db \<Rightarrow> string \<Rightarrow> string \<Rightarrow> string \<Rightarrow> Db" where
  "clearSubdomainForOtherDeployments db p sub excludeDeploymentId =
     db\<lparr>deployments :=
       map (\<lambda>d. if projectId d = p \<and> subdomain d = Some sub \<and> did d \<noteq> excludeDeploymentId
                then d\<lparr>subdomain := None\<rparr> else d)
           (deployments db)\<rparr>"

section \<open>Deployment service\<close>

text \<open>
  \<open>DeploymentService\<close> receives its collaborators by constructor injection. What they
  answer during one call is the record below: the git service, the container service, the
  queue, the clock read by \<open>new Date()\<close> before the pipeline and when it ends, and the
  identifier the store gives a new row.
\<close>

record DeploymentJob =
  job_deploymentId :: string
  job_projectId :: string

record Collaborators =
  git_ensureRepo :: "string \<Rightarrow> string \<Rightarrow> string \<Rightarrow> JsError + string"
  docker_buildImage :: "Project \<Rightarrow> string \<Rightarrow> JsError + string"
  docker_runContainer :: "string \<Rightarrow> string \<Rightarrow> string \<Rightarrow> JsError + nat"
  queue_add :: "DeploymentJob \<Rightarrow> JsError + string"
  clockStart :: nat
  clockEnd :: nat
  generatedId :: string

text \<open>What \<open>console.warn\<close> receives.\<close>

datatype LogLine = Warn string string

definition isConnectionError :: "JsError \<Rightarrow> bool" where
  "isConnectionError err =
     (errCode err = Some ''ECONNREFUSED''
      \<or> (case errMessage err of None \<Rightarrow> False | Some m \<Rightarrow> str_includes m ''ECONNREFUSED'')
      \<or> instanceofAggregateError err)"

definition queueUnavailableWarning :: string where
  "queueUnavailableWarning =
     ''[DeploymentService] Queue unavailable (Redis not running?). Deployment created but not queued:''"

text \<open>
  \<open>createDeployment\<close> returns the store, the console output and the value returned or thrown.
\<close>

definition createDeployment ::
  "Collaborators \<Rightarrow> Db \<Rightarrow> string \<Rightarrow> string \<Rightarrow> Db \<times> LogLine list \<times> (JsError + Deployment)" where
  "createDeployment c db p uid =
     (case findProjectById db p of
        None \<Rightarrow> (db, [], Inl (NotFoundError ''Project''))
      | Some project \<Rightarrow>
          if userId project \<noteq> uid then (db, [], Inl (NotFoundError ''Project''))
          else
            (let (db1, deployment) = create db (generatedId c) p (Some QUEUED) in
             case queue_add c \<lparr>job_deploymentId = did deployment, job_projectId = p\<rparr> of
               Inr _ \<Rightarrow> (db1, [], Inr deployment)
             | Inl err \<Rightarrow>
                 if isConnectionError err
                 then (db1, [Warn queueUnavailableWarning (did deployment)], Inr deployment)
                 else (db1, [], Inl err)))"

text \<open>
  The body of the \<open>try\<close> block of \<open>buildAndDeploy\<close>. The result is the list of stores after
  each write, in order, and whether an error was thrown.
\<close>

definition pipeline ::
  "Collaborators \<Rightarrow> Db \<Rightarrow> Project \<Rightarrow> string \<Rightarrow> string \<Rightarrow> Db list \<times> (JsError + unit)" where
  "pipeline c db0 project url deploymentId =
     (case update db0 deploymentId
             (noChange\<lparr>u_status := Some BUILDING, u_buildStep := Some (Some CLONING),
                        u_startedAt := Some (Some (clockStart c))\<rparr>) of
        Inl e \<Rightarrow> ([], Inl e)
      | Inr db1 \<Rightarrow>
     (case git_ensureRepo c url (slug project) (branch project) of
        Inl e \<Rightarrow> ([db1], Inl e)
      | Inr workDir \<Rightarrow>
     (case update db1 deploymentId (noChange\<lparr>u_buildStep := Some (Some BUILDING_IMAGE)\<rparr>) of
        Inl e \<Rightarrow> ([db1], Inl e)
      | Inr db2 \<Rightarrow>
     (case docker_buildImage c project workDir of
        Inl e \<Rightarrow> ([db1, db2], Inl e)
      | Inr imageName \<Rightarrow>
     (case update db2 deploymentId (noChange\<lparr>u_buildStep := Some (Some STARTING)\<rparr>) of
        Inl e \<Rightarrow> ([db1, db2], Inl e)
      | Inr db3 \<Rightarrow>
     (case docker_runContainer c imageName (ptype project) (''dropdeploy-'' @ slug project) of
        Inl e \<Rightarrow> ([db1, db2, db3], Inl e)
      | Inr port \<Rightarrow>
     (let db4 = clearSubdomainForOtherDeployments db3 (pid project) (slug project) deploymentId in
      case update db4 deploymentId
             (noChange\<lparr>u_status := Some DEPLOYED, u_buildStep := Some None,
                        u_containerPort := Some (Some port),
                        u_subdomain := Some (Some (slug project)),
                        u_completedAt := Some (Some (clockEnd c))\<rparr>) of
        Inl e \<Rightarrow> ([db1, db2, db3, db4], Inl e)
      | Inr db5 \<Rightarrow> ([db1, db2, db3, db4, db5], Inr ()))))))))"

text \<open>
  \<open>buildAndDeploy\<close>: a missing row is a stale job (a warning, no write); an empty
  repository URL writes \<open>status: 'FAILED'\<close> and returns; otherwise the pipeline runs and
  the \<open>catch\<close> block writes the failure and rethrows. An error thrown by the write of the
  \<open>catch\<close> block itself replaces the caught one.
\<close>

definition buildAndDeploy :: "Collaborators \<Rightarrow> Db \<Rightarrow> string \<Rightarrow> Db list \<times> (JsError + unit)" where
  "buildAndDeploy c db0 deploymentId =
     (case findByIdWithProject db0 deploymentId of
        None \<Rightarrow> ([], Inr ())
      | Some (deployment, project) \<Rightarrow>
          if \<not> truthy (githubUrl project) then
            (case update db0 deploymentId (noChange\<lparr>u_status := Some FAILED\<rparr>) of
               Inl e \<Rightarrow> ([], Inl e)
             | Inr db1 \<Rightarrow> ([db1], Inr ()))
          else
            (case pipeline c db0 project (the (githubUrl project)) deploymentId of
               (ws, Inr _) \<Rightarrow> (ws, Inr ())
             | (ws, Inl err) \<Rightarrow>
                 (case update (last (db0 # ws)) deploymentId
                         (noChange\<lparr>u_status := Some FAILED, u_buildStep := Some None,
                                    u_completedAt := Some (Some (clockEnd c))\<rparr>) of
                    Inl e \<Rightarrow> (ws, Inl e)
                  | Inr dbf \<Rightarrow> (ws @ [dbf], Inl err))))"

text \<open>The store a call leaves behind.\<close>

definition finalDb :: "Db \<Rightarrow> Db list \<Rightarrow> Db" where
  "finalDb db0 ws = last (db0 # ws)"

section \<open>Properties of the store\<close>

text \<open>
  The deployments of project \<open>p\<close> that hold subdomain \<open>sub\<close>, and the invariant that for
  every project of the store at most one of its deployments holds the project's slug.
\<close>

definition holders :: "Db \<Rightarrow> string \<Rightarrow> string \<Rightarrow> Deployment list" where
  "holders db p sub = filter (\<lambda>d. projectId d = p \<and> subdomain d = Some sub) (deployments db)"

definition subdomainUnique :: "Db \<Rightarrow> bool" where
  "subdomainUnique db = (\<forall>p \<in> set (projects db). length (holders db (pid p) (slug p)) \<le> 1)"

text \<open>No deployment of project \<open>p\<close> other than \<open>i\<close> holds subdomain \<open>sub\<close>.\<close>

definition noOtherHolder :: "Db \<Rightarrow> string \<Rightarrow> string \<Rightarrow> string \<Rightarrow> bool" where
  "noOtherHolder db p sub i =
     (\<forall>d \<in> set (deployments db). projectId d = p \<and> did d \<noteq> i \<longrightarrow> subdomain d \<noteq> Some sub)"

text \<open>The row of the run belongs to the project and the identifiers are a key.\<close>

definition rowsOk :: "Db \<Rightarrow> string \<Rightarrow> string \<Rightarrow> bool" where
  "rowsOk db i p =
     (distinct (map did (deployments db)) \<and> findById db i \<noteq> None \<and>
      (\<forall>d \<in> set (deployments db). did d = i \<longrightarrow> projectId d = p))"

definition statusOf :: "Db \<Rightarrow> string \<Rightarrow> DeploymentStatus option" where
  "statusOf db i = map_option status (findById db i)"

text \<open>
  Write \<open>k\<close> of a run was preceded by the clearing: the store before it is the result of
  \<open>clearSubdomainForOtherDeployments\<close> on the store before that one, no other deployment
  of the project holds the slug there, and the row of the run itself was not touched
  by the clearing.
\<close>

definition clearedBefore :: "Db list \<Rightarrow> string \<Rightarrow> Project \<Rightarrow> nat \<Rightarrow> bool" where
  "clearedBefore ws i project k =
     (2 \<le> k \<and>
      ws ! (k - 1) = clearSubdomainForOtherDeployments (ws ! (k - 2)) (pid project) (slug project) i \<and>
      noOtherHolder (ws ! (k - 1)) (pid project) (slug project) i \<and>
      findById (ws ! (k - 1)) i = findById (ws ! (k - 2)) i)"

text \<open>
  The error of the first step of the pipeline that throws (the clone, the image build, the
  container start), if one does; the port of the container otherwise.
\<close>

definition stepResult :: "Collaborators \<Rightarrow> Project \<Rightarrow> string \<Rightarrow> JsError + nat" where
  "stepResult c project url =
     (case git_ensureRepo c url (slug project) (branch project) of
        Inl e \<Rightarrow> Inl e
      | Inr workDir \<Rightarrow>
          (case docker_buildImage c project workDir of
             Inl e \<Rightarrow> Inl e
           | Inr imageName \<Rightarrow>
               docker_runContainer c imageName (ptype project) (''dropdeploy-'' @ slug project)))"

text \<open>
  A store for the examples: project \<open>site\<close> with a deployed deployment \<open>d1\<close> that holds
  the subdomain and a queued deployment \<open>d2\<close>; collaborators that all succeed; a clone
  that fails; a project without repository URL; a queue that rejects.
\<close>

definition exampleProject :: Project where
  "exampleProject = \<lparr>pid = ''p1'', userId = ''u1'', pname = ''Site'', slug = ''site'',
     githubUrl = Some ''https://git.example.test/u/site.git'', ptype = ''STATIC'',
     branch = ''main''\<rparr>"

definition exampleDb :: Db where
  "exampleDb = \<lparr>projects = [exampleProject],
     deployments =
       [\<lparr>did = ''d1'', projectId = ''p1'', status = DEPLOYED, buildStep = None,
          containerPort = Some 8472, subdomain = Some ''site'', logs = None,
          startedAt = Some 1000, completedAt = Some 2000\<rparr>,
        newDeployment ''d2'' ''p1'' QUEUED]\<rparr>"

definition exampleCollaborators :: Collaborators where
  "exampleCollaborators = \<lparr>
     git_ensureRepo = (\<lambda>url s b. Inr (''/srv/projects/'' @ s)),
     docker_buildImage = (\<lambda>p dir. Inr (''dropdeploy/'' @ slug p @ '':latest'')),
     docker_runContainer = (\<lambda>img t n. Inr 8000),
     queue_add = (\<lambda>j. Inr ''1''),
     clockStart = 3000, clockEnd = 4000, generatedId = ''d3''\<rparr>"

definition failingClone :: Collaborators where
  "failingClone = exampleCollaborators
     \<lparr>git_ensureRepo := (\<lambda>url s b. Inl (Error ''fatal: repository not found''))\<rparr>"

definition noUrlDb :: Db where
  "noUrlDb = exampleDb\<lparr>projects := [exampleProject\<lparr>githubUrl := None\<rparr>]\<rparr>"

definition createdDb :: Db where
  "createdDb = fst (createDeployment exampleCollaborators noUrlDb ''p1'' ''u1'')"








section \<open>Container service\<close>

text \<open>
  A JavaScript value as far as the container service can meet one: a string, a number,
  a function (by its source text), some other object, or \<open>undefined\<close>.
\<close>

datatype JsValue = JsString string | JsNumber nat | JsFunction string | JsObject | JsUndefined

text \<open>Decimal digits of a number, as a template literal and \<open>String(n)\<close> print it.\<close>

fun showNat :: "nat \<Rightarrow> string" where
  "showNat n = (if n < 10 then [''0123456789'' ! n]
                else showNat (n div 10) @ [''0123456789'' ! (n mod 10)])"

declare showNat.simps [simp del]

definition toStringJs :: "JsValue \<Rightarrow> string" where
  "toStringJs v = (case v of JsString s \<Rightarrow> s | JsNumber n \<Rightarrow> showNat n | JsFunction src \<Rightarrow> src
                   | JsObject \<Rightarrow> ''[object Object]'' | JsUndefined \<Rightarrow> ''undefined'')"

text \<open>
  The two tables of src/services/docker/dockerfile.templates.ts are object literals: each
  has its own properties and inherits those of \<open>Object.prototype\<close>. The operator \<open>in\<close> and
  a property read both follow the prototype chain. The properties of \<open>Object.prototype\<close>
  are the ones of the language; \<open>__proto__\<close> reads as the prototype object itself.
\<close>

definition Object_prototype :: "(string \<times> JsValue) list" where
  \<open>Object_prototype =
     [(''constructor'', JsFunction ''function Object() { [native code] }''),
      (''__defineGetter__'', JsFunction ''function __defineGetter__() { [native code] }''),
      (''__defineSetter__'', JsFunction ''function __defineSetter__() { [native code] }''),
      (''hasOwnProperty'', JsFunction ''function hasOwnProperty() { [native code] }''),
      (''__lookupGetter__'', JsFunction ''function __lookupGetter__() { [native code] }''),
      (''__lookupSetter__'', JsFunction ''function __lookupSetter__() { [native code] }''),
      (''isPrototypeOf'', JsFunction ''function isPrototypeOf() { [native code] }''),
      (''propertyIsEnumerable'', JsFunction ''function propertyIsEnumerable() { [native code] }''),
      (''toString'', JsFunction ''function toString() { [native code] }''),
      (''valueOf'', JsFunction ''function valueOf() { [native code] }''),
      (''__proto__'', JsObject),
      (''toLocaleString'', JsFunction ''function toLocaleString() { [native code] }'')]\<close>

definition hasProperty :: "(string \<times> JsValue) list \<Rightarrow> string \<Rightarrow> bool" where
  "hasProperty obj k = (map_of obj k \<noteq> None \<or> map_of Object_prototype k \<noteq> None)"

definition getProperty :: "(string \<times> JsValue) list \<Rightarrow> string \<Rightarrow> JsValue" where
  "getProperty obj k =
     (case map_of obj k of
        Some v \<Rightarrow> v
      | None \<Rightarrow> (case map_of Object_prototype k of Some v \<Rightarrow> v | None \<Rightarrow> JsUndefined))"

definition STATIC_TEMPLATE :: string where
  \<open>STATIC_TEMPLATE =
     ''FROM nginx:alpine\<newline>COPY . /usr/share/nginx/html\<newline>EXPOSE 80\<newline>CMD ["nginx", "-g", "daemon off;"]''\<close>

definition NODEJS_TEMPLATE :: string where
  \<open>NODEJS_TEMPLATE =
     ''FROM node:22-alpine\<newline>WORKDIR /app\<newline>COPY package*.json ./\<newline>RUN npm install --omit=dev\<newline>COPY . .\<newline>EXPOSE 3000\<newline>CMD ["npm", "start"]''\<close>

definition NEXTJS_TEMPLATE :: string where
  \<open>NEXTJS_TEMPLATE =
     ''FROM node:22-alpine AS builder\<newline>WORKDIR /app\<newline>COPY package*.json ./\<newline>RUN npm install --omit=dev\<newline>COPY . .\<newline>ENV NEXT_TELEMETRY_DISABLED=1\<newline>RUN npm run build\<newline>\<newline>FROM node:22-alpine AS runner\<newline>WORKDIR /app\<newline>ENV NODE_ENV=production\<newline>COPY --from=builder /app/.next ./.next\<newline>COPY --from=builder /app/node_modules ./node_modules\<newline>COPY --from=builder /app/package.json ./package.json\<newline>COPY --from=builder /app/public ./public\<newline>EXPOSE 3000\<newline>CMD ["npm", "start"]''\<close>

definition DJANGO_TEMPLATE :: string where
  \<open>DJANGO_TEMPLATE =
     ''FROM python:3.13-slim\<newline>WORKDIR /app\<newline>COPY requirements.txt ./\<newline>RUN pip install --no-cache-dir -r requirements.txt\<newline>COPY . .\<newline>EXPOSE 8000\<newline>CMD ["python", "manage.py", "runserver", "0.0.0.0:8000"]''\<close>

definition DOCKERFILE_TEMPLATES :: "(string \<times> JsValue) list" where
  "DOCKERFILE_TEMPLATES =
     [(''STATIC'', JsString STATIC_TEMPLATE), (''NODEJS'', JsString NODEJS_TEMPLATE),
      (''NEXTJS'', JsString NEXTJS_TEMPLATE), (''DJANGO'', JsString DJANGO_TEMPLATE)]"

definition CONTAINER_PORTS :: "(string \<times> JsValue) list" where
  "CONTAINER_PORTS =
     [(''STATIC'', JsNumber 80), (''NODEJS'', JsNumber 3000), (''NEXTJS'', JsNumber 3000),
      (''DJANGO'', JsNumber 8000)]"

text \<open>
  The service object (memory limit and CPU shares from the constructor) and what the
  container engine, the file system and \<open>Math.random\<close> answer during a call. The ports
  bound on the host are part of the host's state; no function of the service reads them.
\<close>

record DockerService =
  memoryLimitBytes :: nat
  cpuShares :: nat

definition dockerService :: DockerService where
  "dockerService = \<lparr>memoryLimitBytes = 512 * 1024 * 1024, cpuShares = 1024\<rparr>"

record BuildChunk =
  chunk_stream :: "string option"
  chunk_error :: "string option"
  chunk_errorDetail :: "string option option"

record BuildProgress =
  events :: "BuildChunk list"
  finishErr :: "JsError option"
  finishOutput :: "BuildChunk list"

record CreateOptions =
  Image :: string
  name :: "string option"
  ExposedPorts :: "string list"
  PortBindings :: "(string \<times> string list) list"
  Memory :: nat
  CpuShares :: nat

datatype DockerCall =
    BuildImage string string
  | ImageInspect string
  | ContainerInspect string
  | ContainerStop string
  | ContainerRemove string
  | CreateContainer CreateOptions
  | ContainerStart string

record DockerEnv =
  path_join :: "string \<Rightarrow> string \<Rightarrow> string"
  writeFile :: "string \<Rightarrow> JsValue \<Rightarrow> JsError option"
  patchNextConfig :: "string \<Rightarrow> JsError option"
  engine_buildImage :: "string \<Rightarrow> string \<Rightarrow> JsError + BuildProgress"
  imageInspect :: "string \<Rightarrow> JsError option"
  containerInspect :: "string \<Rightarrow> JsError + bool"
  containerStop :: "string \<Rightarrow> JsError option"
  containerRemove :: "string \<Rightarrow> JsError option"
  createContainer :: "CreateOptions \<Rightarrow> JsError + string"
  containerStart :: "string \<Rightarrow> JsError option"
  random :: real
  boundPorts :: "nat set"

text \<open>\<open>getDockerfileForProject\<close>.\<close>

definition getDockerfileForProject :: "Project \<Rightarrow> JsValue" where
  "getDockerfileForProject project =
     (let key = (if hasProperty DOCKERFILE_TEMPLATES (ptype project) then ptype project
                 else ''STATIC'')
      in getProperty DOCKERFILE_TEMPLATES key)"

text \<open>
  The callbacks given to \<open>followProgress\<close>: each progress event with a truthy \<open>stream\<close> is
  pushed to \<open>buildLog\<close>; at the end an error of the stream, or the first chunk of the
  output for which \<open>o.error ?? o.errorDetail\<close> is truthy, rejects.
\<close>

definition buildLog :: "BuildChunk list \<Rightarrow> string list" where
  "buildLog evs = map (\<lambda>e. the (chunk_stream e)) (filter (\<lambda>e. truthy (chunk_stream e)) evs)"

definition isBuildError :: "BuildChunk \<Rightarrow> bool" where
  "isBuildError c =
     (case chunk_error c of Some e \<Rightarrow> e \<noteq> [] | None \<Rightarrow> chunk_errorDetail c \<noteq> None)"

definition buildErrorMessage :: "BuildChunk \<Rightarrow> string" where
  "buildErrorMessage c =
     (case chunk_error c of
        Some e \<Rightarrow> e
      | None \<Rightarrow> (case chunk_errorDetail c of Some (Some m) \<Rightarrow> m | _ \<Rightarrow> ''Docker build failed''))"

definition followProgress :: "BuildProgress \<Rightarrow> JsError option" where
  "followProgress pr =
     (case finishErr pr of
        Some err \<Rightarrow> Some err
      | None \<Rightarrow>
          (case find isBuildError (finishOutput pr) of
             Some buildError \<Rightarrow>
               (let log = buildLog (events pr);
                    tail = concat (drop (length log - 20) log)
                in Some (Error (buildErrorMessage buildError
                     @ ''\<newline>\<newline>Build output (last 20 lines):\<newline>'' @ tail)))
           | None \<Rightarrow> None))"

definition noImageMessage :: string where
  \<open>noImageMessage =
     ''Docker build did not produce an image. For Node.js: ensure package.json has a "start" script (e.g. "node index.js"). Check your repo and try again.''\<close>

text \<open>\<open>buildImage\<close>, with the calls made to the engine.\<close>

definition buildImage ::
  "DockerEnv \<Rightarrow> Project \<Rightarrow> string \<Rightarrow> DockerCall list \<times> (JsError + string)" where
  "buildImage env project contextPath =
     (let imageName = ''dropdeploy/'' @ slug project @ '':latest'';
          dockerfile = getDockerfileForProject project;
          dockerfilePath = path_join env contextPath ''Dockerfile''
      in
      case writeFile env dockerfilePath dockerfile of
        Some e \<Rightarrow> ([], Inl e)
      | None \<Rightarrow>
      (case (if ptype project = ''NEXTJS'' then patchNextConfig env contextPath else None) of
        Some e \<Rightarrow> ([], Inl e)
      | None \<Rightarrow>
      (case engine_buildImage env contextPath imageName of
        Inl e \<Rightarrow> ([BuildImage contextPath imageName], Inl e)
      | Inr pr \<Rightarrow>
      (case followProgress pr of
        Some e \<Rightarrow> ([BuildImage contextPath imageName], Inl e)
      | None \<Rightarrow>
      (case imageInspect env imageName of
        Some _ \<Rightarrow> ([BuildImage contextPath imageName, ImageInspect imageName],
                   Inl (Error noImageMessage))
      | None \<Rightarrow> ([BuildImage contextPath imageName, ImageInspect imageName],
                  Inr imageName))))))"

text \<open>\<open>findAvailablePort\<close>: \<open>Math.random()\<close> is a number \<open>r\<close> with \<open>0 \<le> r < 1\<close>.\<close>

definition findAvailablePort :: "DockerEnv \<Rightarrow> nat" where
  "findAvailablePort env = (let base = 8000; range = 2000 in base + nat \<lfloor>random env * range\<rfloor>)"

text \<open>
  \<open>runContainer\<close>. The removal of an existing container is inside a \<open>try\<close> whose \<open>catch\<close>
  is empty: a failing inspect, stop or remove ends it silently.
\<close>

definition removeExisting :: "DockerEnv \<Rightarrow> string \<Rightarrow> DockerCall list" where
  "removeExisting env cn =
     (case containerInspect env cn of
        Inl _ \<Rightarrow> [ContainerInspect cn]
      | Inr running \<Rightarrow>
          if running then
            (case containerStop env cn of
               Some _ \<Rightarrow> [ContainerInspect cn, ContainerStop cn]
             | None \<Rightarrow> [ContainerInspect cn, ContainerStop cn, ContainerRemove cn])
          else [ContainerInspect cn, ContainerRemove cn])"

definition containerPortFor :: "string \<Rightarrow> JsValue" where
  "containerPortFor projectType =
     (case getProperty CONTAINER_PORTS projectType of JsUndefined \<Rightarrow> JsNumber 3000 | v \<Rightarrow> v)"

definition imageNotFoundMessage :: "string \<Rightarrow> string" where
  \<open>imageNotFoundMessage imageName =
     ''Image '' @ imageName @ '' was not found. The Docker build likely failed. For Node.js: ensure package.json has a "start" script (e.g. "node index.js") and that the repo builds. Check deployment logs.''\<close>

definition runContainer ::
  "DockerService \<Rightarrow> DockerEnv \<Rightarrow> string \<Rightarrow> string \<Rightarrow> string option
     \<Rightarrow> DockerCall list \<times> (JsError + nat)" where
  "runContainer svc env imageName projectType containerName =
     (case imageInspect env imageName of
        Some _ \<Rightarrow> ([ImageInspect imageName], Inl (Error (imageNotFoundMessage imageName)))
      | None \<Rightarrow>
          (let removed = (if truthy containerName then removeExisting env (the containerName)
                          else []);
               containerPort = containerPortFor projectType;
               hostPort = findAvailablePort env;
               options = \<lparr>Image = imageName, name = containerName,
                 ExposedPorts = [toStringJs containerPort @ ''/tcp''],
                 PortBindings = [(toStringJs containerPort @ ''/tcp'', [showNat hostPort])],
                 Memory = memoryLimitBytes svc, CpuShares = cpuShares svc\<rparr>;
               before = [ImageInspect imageName] @ removed @ [CreateContainer options]
           in
           case createContainer env options of
             Inl e \<Rightarrow> (before, Inl e)
           | Inr container \<Rightarrow>
               (case containerStart env container of
                  Some e \<Rightarrow> (before @ [ContainerStart container], Inl e)
                | None \<Rightarrow> (before @ [ContainerStart container], Inr hostPort))))"

text \<open>
  An engine for the examples: every call succeeds and the build stream reports no error;
  a host on which port 8000 is bound, with \<open>Math.random\<close> giving 0; an engine that has no
  image after the build.
\<close>

definition exampleProgress :: BuildProgress where
  "exampleProgress = \<lparr>
     events = [\<lparr>chunk_stream = Some ''Step 1/7 : FROM node:22-alpine'', chunk_error = None,
                 chunk_errorDetail = None\<rparr>],
     finishErr = None,
     finishOutput = [\<lparr>chunk_stream = Some ''Step 1/7 : FROM node:22-alpine'',
                       chunk_error = None, chunk_errorDetail = None\<rparr>]\<rparr>"

definition exampleDockerEnv :: DockerEnv where
  "exampleDockerEnv = \<lparr>
     path_join = (\<lambda>a b. a @ ''/'' @ b),
     writeFile = (\<lambda>p v. None),
     patchNextConfig = (\<lambda>p. None),
     engine_buildImage = (\<lambda>ctx tag. Inr exampleProgress),
     imageInspect = (\<lambda>i. None),
     containerInspect = (\<lambda>c. Inl (Error ''no such container'')),
     containerStop = (\<lambda>c. None),
     containerRemove = (\<lambda>c. None),
     createContainer = (\<lambda>opts. Inr ''c0ffee''),
     containerStart = (\<lambda>c. None),
     random = 0,
     boundPorts = {}\<rparr>"

definition busyHost :: DockerEnv where
  "busyHost = exampleDockerEnv\<lparr>random := 0, boundPorts := {8000}\<rparr>"

definition imagelessEnv :: DockerEnv where
  "imagelessEnv = exampleDockerEnv\<lparr>imageInspect := (\<lambda>i. Some (Error ''no such image''))\<rparr>"

section \<open>Git service\<close>

text \<open>
  The commands \<open>ensureRepo\<close> gives to simple-git, each with the directory the client was
  created for (\<open>simpleGit(workDir)\<close>, or \<open>simpleGit()\<close> for the clone).
\<close>

datatype GitCommand =
    Raw "string list"
  | Fetch "string list"
  | Checkout string
  | CheckoutBranch string string
  | Reset "string list"
  | Clone string string "string list"

type_synonym GitCall = "string option \<times> GitCommand"

text \<open>
  What the configuration, the file system and git answer during a call: \<open>getConfig\<close>
  gives \<open>PROJECTS_DIR\<close> or throws, \<open>stat\<close> tells whether \<open>fs.promises.stat\<close> resolves.
\<close>

record GitEnv =
  getConfig_PROJECTS_DIR :: "JsError + string"
  git_path_join :: "string \<Rightarrow> string \<Rightarrow> string"
  mkdir :: "string \<Rightarrow> JsError option"
  stat :: "string \<Rightarrow> bool"
  git :: "GitCall \<Rightarrow> JsError option"

definition refspecAllBranches :: string where
  "refspecAllBranches = ''+refs/heads/*:refs/remotes/origin/*''"

text \<open>The path of \<open>ensureRepo\<close> taken when the repository is already cloned.\<close>

definition fetchAndReset ::
  "GitEnv \<Rightarrow> string \<Rightarrow> string \<Rightarrow> string \<Rightarrow> GitCall list \<times> (JsError + string)" where
  "fetchAndReset env workDir gitDir branch' =
     (let config = (Some workDir, Raw [''config'', ''remote.origin.fetch'', refspecAllBranches]) in
      case git env config of
        Some e \<Rightarrow> ([config], Inl e)
      | None \<Rightarrow>
      (let isShallow = stat env (git_path_join env gitDir ''shallow'');
           fetch = (Some workDir,
                    Fetch (if isShallow then [''origin'', ''--unshallow'', ''--prune'']
                           else [''origin'', ''--prune'']))
       in
       case git env fetch of
         Some e \<Rightarrow> ([config, fetch], Inl e)
       | None \<Rightarrow>
       (let checkout = (Some workDir, Checkout branch');
            tracking = (Some workDir, CheckoutBranch branch' (''origin/'' @ branch'));
            (switch, switched) =
               (case git env checkout of
                  None \<Rightarrow> ([checkout], None)
                | Some _ \<Rightarrow> ([checkout, tracking], git env tracking))
        in
        case switched of
          Some e \<Rightarrow> ([config, fetch] @ switch, Inl e)
        | None \<Rightarrow>
        (let reset = (Some workDir, Reset [''--hard'', ''origin/'' @ branch']) in
         case git env reset of
           Some e \<Rightarrow> ([config, fetch] @ switch @ [reset], Inl e)
         | None \<Rightarrow> ([config, fetch] @ switch @ [reset], Inr workDir)))))"

definition ensureRepo ::
  "GitEnv \<Rightarrow> string \<Rightarrow> string \<Rightarrow> string \<Rightarrow> GitCall list \<times> (JsError + string)" where
  "ensureRepo env repoUrl projectSlug branch' =
     (case getConfig_PROJECTS_DIR env of
        Inl e \<Rightarrow> ([], Inl e)
      | Inr projectsDir \<Rightarrow>
      (let workDir = git_path_join env projectsDir projectSlug in
       case mkdir env projectsDir of
         Some e \<Rightarrow> ([], Inl e)
       | None \<Rightarrow>
       (let gitDir = git_path_join env workDir ''.git'';
            exists = stat env gitDir
        in
        if exists then fetchAndReset env workDir gitDir branch'
        else
          (let clone = (None, Clone repoUrl workDir [''-b'', branch']) in
           case git env clone of
             Some e \<Rightarrow> ([clone], Inl e)
           | None \<Rightarrow> ([clone], Inr workDir)))))"

text \<open>
  The commands of the update path in full: the refspec, the fetch, the checkout, the
  tracking branch when the plain checkout failed, the hard reset.
\<close>

definition isClone :: "GitCall \<Rightarrow> bool" where
  "isClone c = (case snd c of Clone _ _ _ \<Rightarrow> True | _ \<Rightarrow> False)"

definition updateCommands :: "string \<Rightarrow> bool \<Rightarrow> bool \<Rightarrow> string \<Rightarrow> GitCall list" where
  "updateCommands workDir shallow checkoutFailed branch' =
     [(Some workDir, Raw [''config'', ''remote.origin.fetch'', ''+refs/heads/*:refs/remotes/origin/*'']),
      (Some workDir, Fetch (if shallow then [''origin'', ''--unshallow'', ''--prune'']
                            else [''origin'', ''--prune''])),
      (Some workDir, Checkout branch')]
     @ (if checkoutFailed then [(Some workDir, CheckoutBranch branch' (''origin/'' @ branch'))] else [])
     @ [(Some workDir, Reset [''--hard'', ''origin/'' @ branch'])]"

definition exampleGitEnv :: "bool \<Rightarrow> bool \<Rightarrow> bool \<Rightarrow> GitEnv" where
  "exampleGitEnv cloned shallow branchKnown = \<lparr>
     getConfig_PROJECTS_DIR = Inr ''/srv/projects'',
     git_path_join = (\<lambda>a b. a @ ''/'' @ b),
     mkdir = (\<lambda>d. None),
     stat = (\<lambda>p. if p = ''/srv/projects/site/.git'' then cloned
                  else if p = ''/srv/projects/site/.git/shallow'' then shallow else False),
     git = (\<lambda>c. if snd c = Checkout ''dev'' \<and> \<not> branchKnown
                 then Some (Error ''error: pathspec dev did not match'') else None)\<rparr>"

section \<open>Terminal service\<close>

text \<open>
  White space as \<open>String.prototype.trim\<close> and the class \<open>\s\<close> of a regular expression see
  it, among the code units below U+0100: tab, line feed, vertical tab, form feed,
  carriage return, space and no-break space.
\<close>

definition isWhitespace :: "char \<Rightarrow> bool" where
  "isWhitespace c = (of_char c \<in> {9, 10, 11, 12, 13, 32, 160 :: nat})"

definition trim :: "string \<Rightarrow> string" where
  "trim s = rev (dropWhile isWhitespace (rev (dropWhile isWhitespace s)))"

text \<open>
  \<open>s.split(/\s+/)\<close>: the pieces between maximal runs of white space; a run at the start
  or at the end leaves an empty piece there, and the empty string gives one empty piece.
\<close>

fun splitWs :: "string \<Rightarrow> string list" where
  "splitWs [] = [[]]"
| "splitWs (c # cs) =
     (if isWhitespace c then
        (if cs \<noteq> [] \<and> isWhitespace (hd cs) then splitWs cs else [] # splitWs cs)
      else (case splitWs cs of [] \<Rightarrow> [[c]] | t # ts \<Rightarrow> (c # t) # ts))"

text \<open>\<open>Array.prototype.join\<close>.\<close>

fun join :: "string \<Rightarrow> string list \<Rightarrow> string" where
  "join sep [] = []"
| "join sep [x] = x"
| "join sep (x # y # ys) = x @ sep @ join sep (y # ys)"

definition ALLOWED_COMMANDS :: "string list" where
  "ALLOWED_COMMANDS =
     [''ls'', ''cat'', ''pwd'', ''echo'', ''env'', ''whoami'',
      ''df'', ''du'', ''ps'', ''top'', ''head'', ''tail'',
      ''grep'', ''find'', ''wc'', ''date'', ''uptime'',
      ''which'', ''printenv'', ''hostname'', ''uname'',
      ''id'', ''free'', ''stat'', ''file'', ''sort'', ''uniq'',
      ''tr'', ''cut'', ''awk'', ''sed'', ''less'', ''more'',
      ''mkdir'', ''touch'', ''cp'', ''mv'', ''cd'',
      ''npm'', ''node'', ''python'', ''pip'',
      ''curl'', ''wget'']"

definition EXEC_TIMEOUT_MS :: nat where
  "EXEC_TIMEOUT_MS = 30000"

record TerminalExecResult =
  stdout :: string
  stderr :: string
  exitCode :: int

record ContainerSummary =
  Id :: string
  summaryImage :: string

text \<open>
  What the engine answers during a call, and how the stream of an exec ends: with its
  end event and the chunks demultiplexed to the two writers, with an error event, or not
  before the timer of \<open>EXEC_TIMEOUT_MS\<close> fires.
\<close>

datatype StreamOutcome = Ended "string list" "string list" | Errored JsError | TimedOut

datatype EngineCall =
    InspectContainer string
  | ListContainers
  | ExecCreate string "string list"
  | ExecStart string
  | StreamDestroy string
  | ExecInspect string

record TerminalEnv =
  inspectContainer :: "string \<Rightarrow> JsError + bool"
  listContainers :: "JsError + ContainerSummary list"
  execCreate :: "string \<Rightarrow> string list \<Rightarrow> JsError + string"
  execStart :: "string \<Rightarrow> JsError + StreamOutcome"
  execInspect :: "string \<Rightarrow> JsError + int option"

text \<open>\<open>validateCommand\<close>: \<open>None\<close> when it returns, the error when it throws.\<close>

definition notAllowedMessage :: "string option \<Rightarrow> string" where
  \<open>notAllowedMessage baseCommand =
     ''Command "'' @ (case baseCommand of None \<Rightarrow> ''undefined'' | Some b \<Rightarrow> b)
       @ ''" is not allowed. Permitted commands: '' @ join '', '' (sort ALLOWED_COMMANDS)\<close>

definition validateCommand :: "string \<Rightarrow> JsError option" where
  "validateCommand command =
     (let trimmed = trim command in
      if trimmed = [] then Some (Error ''Command cannot be empty'')
      else
        (let baseCommand = (case splitWs trimmed of [] \<Rightarrow> None | b # _ \<Rightarrow> Some b) in
         if \<not> truthy baseCommand \<or> the baseCommand \<notin> set ALLOWED_COMMANDS
         then Some (Error (notAllowedMessage baseCommand))
         else None))"

text \<open>\<open>resolveContainer\<close>: by name, else the running container of the project's image.\<close>

definition imageOfContainerName :: "string \<Rightarrow> string" where
  "imageOfContainerName containerName =
     (if startsWith containerName ''dropdeploy-''
      then ''dropdeploy/'' @ drop (length ''dropdeploy-'') containerName
      else containerName) @ '':latest''"

definition containerNotFoundMessage :: "string \<Rightarrow> string" where
  \<open>containerNotFoundMessage containerName =
     ''Container "'' @ containerName @ ''" not found. Redeploy the project to create a named container.''\<close>

definition resolveContainer :: "TerminalEnv \<Rightarrow> string \<Rightarrow> EngineCall list \<times> (JsError + string)" where
  "resolveContainer env containerName =
     (case inspectContainer env containerName of
        Inr _ \<Rightarrow> ([InspectContainer containerName], Inr containerName)
      | Inl _ \<Rightarrow>
          (case listContainers env of
             Inl e \<Rightarrow> ([InspectContainer containerName, ListContainers], Inl e)
           | Inr containers \<Rightarrow>
               (case find (\<lambda>c. summaryImage c = imageOfContainerName containerName) containers of
                  Some m \<Rightarrow> ([InspectContainer containerName, ListContainers], Inr (Id m))
                | None \<Rightarrow> ([InspectContainer containerName, ListContainers],
                            Inl (Error (containerNotFoundMessage containerName))))))"

text \<open>\<open>runInContainer\<close>.\<close>

definition runInContainer ::
  "TerminalEnv \<Rightarrow> string \<Rightarrow> string \<Rightarrow> EngineCall list \<times> (JsError + TerminalExecResult)" where
  "runInContainer env containerName command =
     (case resolveContainer env containerName of
        (t0, Inl e) \<Rightarrow> (t0, Inl e)
      | (t0, Inr container) \<Rightarrow>
      (case inspectContainer env container of
        Inl e \<Rightarrow> (t0 @ [InspectContainer container], Inl e)
      | Inr running \<Rightarrow>
      (let t1 = t0 @ [InspectContainer container] in
       if \<not> running then (t1, Inl (Error ''Container is not running''))
       else
       (let t2 = t1 @ [ExecCreate container [''/bin/sh'', ''-c'', command]] in
        case execCreate env container [''/bin/sh'', ''-c'', command] of
          Inl e \<Rightarrow> (t2, Inl e)
        | Inr exec \<Rightarrow>
        (case execStart env exec of
          Inl e \<Rightarrow> (t2 @ [ExecStart exec], Inl e)
        | Inr outcome \<Rightarrow>
        (let t3 = t2 @ [ExecStart exec] in
         case outcome of
           TimedOut \<Rightarrow>
             (t3 @ [StreamDestroy exec],
              Inl (Error (''Command timed out after '' @ showNat (EXEC_TIMEOUT_MS div 1000) @ ''s'')))
         | Errored err \<Rightarrow> (t3, Inl err)
         | Ended out err \<Rightarrow>
             (t3 @ [ExecInspect exec],
              Inr \<lparr>stdout = concat out, stderr = concat err,
                   exitCode = (case execInspect env exec of
                                 Inl _ \<Rightarrow> - 1
                               | Inr code \<Rightarrow> (case code of None \<Rightarrow> 0 | Some n \<Rightarrow> n))\<rparr>)))))))"

text \<open>\<open>executeCommand\<close>.\<close>

definition executeCommand ::
  "TerminalEnv \<Rightarrow> string \<Rightarrow> string \<Rightarrow> EngineCall list \<times> (JsError + TerminalExecResult)" where
  "executeCommand env containerName command =
     (case validateCommand command of
        Some e \<Rightarrow> ([], Inl e)
      | None \<Rightarrow> runInContainer env containerName command)"

text \<open>
  The first token of a command delimited by white space: what follows the leading white
  space, up to the next white space. It is empty for a command that is empty or blank.
\<close>

definition firstToken :: "string \<Rightarrow> string" where
  "firstToken command = takeWhile (\<lambda>c. \<not> isWhitespace c) (dropWhile isWhitespace command)"

definition listsPermitted :: "string \<Rightarrow> bool" where
  "listsPermitted msg = list_all (str_includes msg) ALLOWED_COMMANDS"

definition exampleTerminalEnv :: TerminalEnv where
  "exampleTerminalEnv = \<lparr>
     inspectContainer = (\<lambda>c. if c = ''dropdeploy-site'' then Inr True
                             else Inl (Error ''no such container'')),
     listContainers = Inr [],
     execCreate = (\<lambda>c cmd. Inr ''exec1''),
     execStart = (\<lambda>e. Inr (Ended [''total 0''] [])),
     execInspect = (\<lambda>e. Inr (Some 0))\<rparr>"

section \<open>Lemmas about the store\<close>

lemma find_did: "find (\<lambda>d. did d = i) xs = Some d \<Longrightarrow> did d = i \<and> d \<in> set xs"
  by (induction xs) (auto split: if_splits)

lemma find_pid: "find (\<lambda>p. pid p = i) xs = Some p \<Longrightarrow> pid p = i \<and> p \<in> set xs"
  by (induction xs) (auto split: if_splits)

lemma findById_None_iff: "findById db i = None \<longleftrightarrow> i \<notin> did ` set (deployments db)"
  by (auto simp: findById_def find_None_iff)

lemma update_Inr_iff:
  "update db i u = Inr db' \<longleftrightarrow>
     (findById db i \<noteq> None \<and>
      db' = db\<lparr>deployments := map (\<lambda>d. if did d = i then applyUpdate u d else d) (deployments db)\<rparr>)"
  by (auto simp: update_def split: option.splits)

lemma update_Inl_iff: "update db i u = Inl e \<longleftrightarrow> (findById db i = None \<and> e = recordNotFound)"
  by (auto simp: update_def split: option.splits)

lemma did_applyUpdate [simp]: "did (applyUpdate u d) = did d"
  by (simp add: applyUpdate_def)

lemma projectId_applyUpdate [simp]: "projectId (applyUpdate u d) = projectId d"
  by (simp add: applyUpdate_def)

lemma logs_applyUpdate [simp]: "logs (applyUpdate u d) = logs d"
  by (simp add: applyUpdate_def)

lemma subdomain_applyUpdate [simp]:
  "subdomain (applyUpdate u d) = orKeep (u_subdomain u) (subdomain d)"
  by (simp add: applyUpdate_def)

lemma update_ids: "update db i u = Inr db' \<Longrightarrow> map did (deployments db') = map did (deployments db)"
  by (auto simp: update_Inr_iff)

lemma update_projects: "update db i u = Inr db' \<Longrightarrow> projects db' = projects db"
  by (auto simp: update_Inr_iff)

lemma update_findById_same:
  "update db i u = Inr db' \<Longrightarrow> findById db' j = None \<longleftrightarrow> findById db j = None"
proof -
  assume "update db i u = Inr db'"
  then have "map did (deployments db') = map did (deployments db)"
    by (rule update_ids)
  then have "set (map did (deployments db')) = set (map did (deployments db))"
    by simp
  then show ?thesis by (simp add: findById_None_iff)
qed

lemma clear_ids [simp]:
  "map did (deployments (clearSubdomainForOtherDeployments db p s i)) = map did (deployments db)"
  by (simp add: clearSubdomainForOtherDeployments_def)

lemma clear_projects [simp]:
  "projects (clearSubdomainForOtherDeployments db p s i) = projects db"
  by (simp add: clearSubdomainForOtherDeployments_def)

lemma find_map_same:
  "(\<And>x. did (f x) = did x) \<Longrightarrow> (\<And>x. did x = i \<Longrightarrow> f x = x) \<Longrightarrow>
   find (\<lambda>d. did d = i) (map f xs) = find (\<lambda>d. did d = i) xs"
  by (induction xs) auto

lemma clear_findById_excluded:
  "findById (clearSubdomainForOtherDeployments db p s i) i = findById db i"
  unfolding findById_def clearSubdomainForOtherDeployments_def
  by (simp add: find_map_same)

lemma filter_length_mono:
  "(\<And>x. x \<in> set xs \<Longrightarrow> P x \<Longrightarrow> Q x) \<Longrightarrow> length (filter P xs) \<le> length (filter Q xs)"
  by (induction xs) auto

lemma distinct_filter_key_le1:
  "distinct (map f xs) \<Longrightarrow> length (filter (\<lambda>x. f x = a) xs) \<le> 1"
  by (induction xs) (auto simp: filter_empty_conv image_iff)

lemma holders_update_keep:
  assumes "update db i u = Inr db'" and "u_subdomain u = None"
  shows "length (holders db' p s) = length (holders db p s)"
proof -
  have "filter (\<lambda>d. projectId d = p \<and> subdomain d = Some s)
          (map (\<lambda>d. if did d = i then applyUpdate u d else d) xs)
        = map (\<lambda>d. if did d = i then applyUpdate u d else d)
            (filter (\<lambda>d. projectId d = p \<and> subdomain d = Some s) xs)" for xs
    using assms(2) by (induction xs) (auto simp: orKeep_def)
  with assms(1) show ?thesis
    by (simp add: holders_def update_Inr_iff)
qed

lemma holders_clear_le:
  "length (holders (clearSubdomainForOtherDeployments db p s i) p' s') \<le> length (holders db p' s')"
  unfolding holders_def clearSubdomainForOtherDeployments_def
  by (simp add: comp_def, rule filter_length_mono) (auto split: if_splits)

lemma clear_rows_noOther:
  "\<forall>d \<in> set (map (\<lambda>d. if projectId d = p \<and> subdomain d = Some s \<and> did d \<noteq> i
                             then d\<lparr>subdomain := None\<rparr> else d) xs).
     projectId d = p \<and> did d \<noteq> i \<longrightarrow> subdomain d \<noteq> Some s"
proof (induction xs)
  case Nil
  show ?case by simp
next
  case (Cons x xs)
  show ?case
    unfolding list.map list.set ball_simps(7)
    apply (rule conjI)
    subgoal by (cases "projectId x = p \<and> subdomain x = Some s \<and> did x \<noteq> i") auto
    apply (rule Cons.IH)
    done
qed

lemma deployments_clear:
  "deployments (clearSubdomainForOtherDeployments db p s i) =
     map (\<lambda>d. if projectId d = p \<and> subdomain d = Some s \<and> did d \<noteq> i
              then d\<lparr>subdomain := None\<rparr> else d) (deployments db)"
  by (simp add: clearSubdomainForOtherDeployments_def)

lemma noOtherHolder_clear:
  "noOtherHolder (clearSubdomainForOtherDeployments db p s i) p s i"
  unfolding noOtherHolder_def deployments_clear
  by (rule clear_rows_noOther)

lemma holders_claim_le:
  assumes d: "distinct (map did (deployments db))"
    and n: "noOtherHolder db p s i"
    and r: "\<forall>d \<in> set (deployments db). did d = i \<longrightarrow> projectId d = p"
    and u: "update db i u = Inr db'" "u_subdomain u = Some (Some s)"
  shows "length (holders db' p' s') \<le> (if p' = p \<and> s' = s then 1 else length (holders db p' s'))"
proof (cases "p' = p \<and> s' = s")
  case True
  have "length (holders db' p s) \<le> length (filter (\<lambda>d. did d = i) (deployments db))"
    using u n unfolding holders_def noOtherHolder_def
    by (simp add: update_Inr_iff comp_def, intro filter_length_mono) (auto simp: orKeep_def split: if_splits)
  also have "\<dots> \<le> 1" using d by (rule distinct_filter_key_le1)
  finally show ?thesis using True by simp
next
  case False
  have "length (holders db' p' s') \<le> length (holders db p' s')"
    using u r False unfolding holders_def
    by (simp add: update_Inr_iff comp_def, intro filter_length_mono) (auto simp: orKeep_def split: if_splits)
  then show ?thesis using False by auto
qed

lemma find_map_upd:
  "(\<And>x. did (f x) = did x) \<Longrightarrow>
   find (\<lambda>d. did d = i) (map (\<lambda>d. if did d = i then f d else d) xs)
     = map_option f (find (\<lambda>d. did d = i) xs)"
  by (induction xs) auto

lemma findById_update:
  "update db i u = Inr db' \<Longrightarrow> findById db' i = map_option (applyUpdate u) (findById db i)"
  by (simp add: update_Inr_iff findById_def find_map_upd)

lemma statusOf_update:
  "update db i u = Inr db' \<Longrightarrow>
   statusOf db' i = map_option (\<lambda>d. orKeep (u_status u) (status d)) (findById db i)"
  by (simp add: statusOf_def findById_update option.map_comp comp_def applyUpdate_def)

lemma statusOf_update_keep:
  "update db i u = Inr db' \<Longrightarrow> u_status u = None \<Longrightarrow> statusOf db' i = statusOf db i"
proof -
  assume u: "update db i u = Inr db'" and k: "u_status u = None"
  have "statusOf db' i = map_option (\<lambda>d. orKeep (u_status u) (status d)) (findById db i)"
    by (rule statusOf_update [OF u])
  then show ?thesis using k
    by (cases "findById db i") (simp_all add: statusOf_def orKeep_def)
qed

lemma statusOf_update_set:
  "update db i u = Inr db' \<Longrightarrow> u_status u = Some st \<Longrightarrow> statusOf db' i = Some st"
proof -
  assume u: "update db i u = Inr db'" and k: "u_status u = Some st"
  have "findById db i \<noteq> None" using u by (simp add: update_Inr_iff)
  moreover have "statusOf db' i = map_option (\<lambda>d. orKeep (u_status u) (status d)) (findById db i)"
    by (rule statusOf_update [OF u])
  ultimately show ?thesis using k
    by (cases "findById db i") (simp_all add: orKeep_def)
qed

lemma statusOf_clear:
  "statusOf (clearSubdomainForOtherDeployments db p s i) i = statusOf db i"
  by (simp add: statusOf_def clear_findById_excluded)

lemma rowsOk_update:
  assumes "rowsOk db i p" and "update db i u = Inr db'"
  shows "rowsOk db' i p"
proof -
  have 1: "distinct (map did (deployments db'))"
    using assms by (simp add: rowsOk_def update_ids)
  have 2: "findById db' i \<noteq> None"
    using assms by (simp add: rowsOk_def update_findById_same)
  have 3: "\<forall>d \<in> set (deployments db'). did d = i \<longrightarrow> projectId d = p"
  proof
    fix d assume "d \<in> set (deployments db')"
    then obtain d0 where d0: "d0 \<in> set (deployments db)"
        and d: "d = (if did d0 = i then applyUpdate u d0 else d0)"
      using assms(2) by (auto simp: update_Inr_iff)
    have "did d = did d0" "projectId d = projectId d0" using d by auto
    then show "did d = i \<longrightarrow> projectId d = p"
      using assms(1) d0 by (simp add: rowsOk_def)
  qed
  show ?thesis using 1 2 3 by (simp add: rowsOk_def)
qed

lemma rowsOk_clear:
  assumes "rowsOk db i p"
  shows "rowsOk (clearSubdomainForOtherDeployments db p' s i) i p"
proof -
  have 3: "\<forall>d \<in> set (deployments (clearSubdomainForOtherDeployments db p' s i)).
             did d = i \<longrightarrow> projectId d = p"
  proof
    fix d assume "d \<in> set (deployments (clearSubdomainForOtherDeployments db p' s i))"
    then obtain d0 where d0: "d0 \<in> set (deployments db)"
        and d: "d = (if projectId d0 = p' \<and> subdomain d0 = Some s \<and> did d0 \<noteq> i
                     then d0\<lparr>subdomain := None\<rparr> else d0)"
      unfolding deployments_clear by (auto simp del: set_map simp add: image_iff list.set_map)
    have "did d = did d0" "projectId d = projectId d0" using d by auto
    then show "did d = i \<longrightarrow> projectId d = p"
      using assms d0 by (simp add: rowsOk_def)
  qed
  show ?thesis using assms 3 by (simp add: rowsOk_def clear_findById_excluded)
qed

lemma unique_update_keep:
  assumes "subdomainUnique db" and "update db i u = Inr db'" and "u_subdomain u = None"
  shows "subdomainUnique db'"
  using assms by (simp add: subdomainUnique_def update_projects holders_update_keep)

lemma unique_clear:
  assumes "subdomainUnique db"
  shows "subdomainUnique (clearSubdomainForOtherDeployments db p s i)"
  unfolding subdomainUnique_def
proof
  fix q assume "q \<in> set (projects (clearSubdomainForOtherDeployments db p s i))"
  then have "length (holders db (pid q) (slug q)) \<le> 1"
    using assms by (simp add: subdomainUnique_def)
  with holders_clear_le [of db p s i "pid q" "slug q"]
  show "length (holders (clearSubdomainForOtherDeployments db p s i) (pid q) (slug q)) \<le> 1"
    by linarith
qed

lemma unique_claim:
  assumes "rowsOk db i p" and "noOtherHolder db p s i" and "subdomainUnique db"
    and u: "update db i u = Inr db'" "u_subdomain u = Some (Some s)"
  shows "subdomainUnique db'"
  unfolding subdomainUnique_def
proof
  fix q assume "q \<in> set (projects db')"
  then have q: "length (holders db (pid q) (slug q)) \<le> 1"
    using assms(3) u(1) by (simp add: subdomainUnique_def update_projects)
  have "length (holders db' (pid q) (slug q))
          \<le> (if pid q = p \<and> slug q = s then 1 else length (holders db (pid q) (slug q)))"
    using assms(1,2) u by (intro holders_claim_le) (simp_all add: rowsOk_def)
  with q show "length (holders db' (pid q) (slug q)) \<le> 1"
    by (simp split: if_splits)
qed

lemma pipeline_trace:
  assumes ok: "rowsOk db0 i (pid project)" and un: "subdomainUnique db0"
    and run: "pipeline c db0 project url i = (ws, r)"
  shows "(\<forall>db \<in> set ws. rowsOk db i (pid project) \<and> subdomainUnique db) \<and>
         (\<forall>k < length ws. statusOf (ws ! k) i = Some DEPLOYED \<longrightarrow>
            k = 4 \<and> ws ! 3 = clearSubdomainForOtherDeployments (ws ! 2) (pid project) (slug project) i)"
proof (cases "update db0 i (noChange\<lparr>u_status := Some BUILDING, u_buildStep := Some (Some CLONING),
                        u_startedAt := Some (Some (clockStart c))\<rparr>)")
  case Inl
  then show ?thesis using run by (auto simp: pipeline_def)
next
  case (Inr db1)
  note u1 = this
  have g1: "rowsOk db1 i (pid project)" "subdomainUnique db1"
    using ok un u1 by (auto intro: rowsOk_update unique_update_keep simp: noChange_def)
  have s1: "statusOf db1 i = Some BUILDING"
    using u1 by (rule statusOf_update_set) (simp add: noChange_def)
  show ?thesis
  proof (cases "git_ensureRepo c url (slug project) (branch project)")
    case Inl
    then show ?thesis using run u1 g1 s1 by (auto simp: pipeline_def)
  next
    case (Inr workDir)
    note e2 = this
    show ?thesis
    proof (cases "update db1 i (noChange\<lparr>u_buildStep := Some (Some BUILDING_IMAGE)\<rparr>)")
      case Inl
      then show ?thesis using run u1 e2 g1 s1 by (auto simp: pipeline_def)
    next
      case (Inr db2)
      note u2 = this
      have g2: "rowsOk db2 i (pid project)" "subdomainUnique db2"
        using g1 u2 by (auto intro: rowsOk_update unique_update_keep simp: noChange_def)
      have s2: "statusOf db2 i = Some BUILDING"
        using s1 statusOf_update_keep [OF u2] by (simp add: noChange_def)
      show ?thesis
      proof (cases "docker_buildImage c project workDir")
        case Inl
        then show ?thesis using run u1 e2 u2 g1 s1 g2 s2
          by (auto simp: pipeline_def less_Suc_eq)
      next
        case (Inr imageName)
        note b3 = this
        show ?thesis
        proof (cases "update db2 i (noChange\<lparr>u_buildStep := Some (Some STARTING)\<rparr>)")
          case Inl
          then show ?thesis using run u1 e2 u2 b3 g1 s1 g2 s2
            by (auto simp: pipeline_def less_Suc_eq)
        next
          case (Inr db3)
          note u3 = this
          have g3: "rowsOk db3 i (pid project)" "subdomainUnique db3"
            using g2 u3 by (auto intro: rowsOk_update unique_update_keep simp: noChange_def)
          have s3: "statusOf db3 i = Some BUILDING"
            using s2 statusOf_update_keep [OF u3] by (simp add: noChange_def)
          show ?thesis
          proof (cases "docker_runContainer c imageName (ptype project) (''dropdeploy-'' @ slug project)")
            case Inl
            then show ?thesis using run u1 e2 u2 b3 u3 g1 s1 g2 s2 g3 s3
              by (auto simp: pipeline_def less_Suc_eq)
          next
            case (Inr port)
            note r4 = this
            define db4 where "db4 = clearSubdomainForOtherDeployments db3 (pid project) (slug project) i"
            have g4: "rowsOk db4 i (pid project)" "subdomainUnique db4"
              using g3 by (simp_all add: db4_def rowsOk_clear unique_clear)
            have n4: "noOtherHolder db4 (pid project) (slug project) i"
              by (simp add: db4_def noOtherHolder_clear)
            have s4: "statusOf db4 i = Some BUILDING"
              using s3 by (simp add: db4_def statusOf_clear)
            show ?thesis
            proof (cases "update db4 i (noChange\<lparr>u_status := Some DEPLOYED, u_buildStep := Some None,
                        u_containerPort := Some (Some port),
                        u_subdomain := Some (Some (slug project)),
                        u_completedAt := Some (Some (clockEnd c))\<rparr>)")
              case Inl
              then show ?thesis using run u1 e2 u2 b3 u3 r4 g1 s1 g2 s2 g3 s3 g4 s4
                by (auto simp: pipeline_def less_Suc_eq Let_def db4_def [symmetric])
            next
              case (Inr db5)
              note u5 = this
              have g5: "rowsOk db5 i (pid project)"
                using g4 u5 by (auto intro: rowsOk_update)
              have q5: "subdomainUnique db5"
                by (rule unique_claim [OF g4(1) n4 g4(2) u5]) (simp add: noChange_def)
              have ws: "ws = [db1, db2, db3, db4, db5]"
                using run u1 e2 u2 b3 u3 r4 u5
                by (auto simp: pipeline_def Let_def db4_def [symmetric])
              have a: "\<forall>db \<in> set ws. rowsOk db i (pid project) \<and> subdomainUnique db"
                using ws g1 g2 g3 g4 g5 q5 by simp
              have b: "\<forall>k < length ws. statusOf (ws ! k) i = Some DEPLOYED \<longrightarrow>
                  k = 4 \<and> ws ! 3 = clearSubdomainForOtherDeployments (ws ! 2) (pid project) (slug project) i"
                using ws s1 s2 s3 s4 by (simp add: less_Suc_eq db4_def) 
              show ?thesis using a b by simp
            qed
          qed
        qed
      qed
    qed
  qed
qed

lemma find_distinct_unique:
  "distinct (map did xs) \<Longrightarrow> find (\<lambda>d. did d = i) xs = Some d \<Longrightarrow>
   x \<in> set xs \<Longrightarrow> did x = i \<Longrightarrow> x = d"
  by (induction xs) (auto split: if_splits simp: image_iff)

lemma rowsOk_found:
  assumes "distinct (map did (deployments db))"
    and "findByIdWithProject db i = Some (d, project)"
  shows "rowsOk db i (pid project)"
proof -
  from assms(2) have f: "findById db i = Some d"
    and p: "findProjectById db (projectId d) = Some project"
    by (auto simp: findByIdWithProject_def split: option.splits)
  from p have pp: "pid project = projectId d"
    unfolding findProjectById_def by (rule find_pid [THEN conjunct1])
  have "\<forall>x \<in> set (deployments db). did x = i \<longrightarrow> projectId x = pid project"
  proof (intro ballI impI)
    fix x assume x: "x \<in> set (deployments db)" "did x = i"
    have "x = d"
      by (rule find_distinct_unique [OF assms(1) f [unfolded findById_def] x])
    then show "projectId x = pid project" using pp by simp
  qed
  then show ?thesis using assms(1) f by (simp add: rowsOk_def)
qed

lemma clearedBefore_append:
  "k < length ws0 \<Longrightarrow> clearedBefore ws0 i project k \<Longrightarrow> clearedBefore (ws0 @ ex) i project k"
proof -
  assume k: "k < length ws0" and c: "clearedBefore ws0 i project k"
  have 1: "(ws0 @ ex) ! (k - 1) = ws0 ! (k - 1)" and 2: "(ws0 @ ex) ! (k - 2) = ws0 ! (k - 2)"
    using k by (simp_all add: nth_append)
  show ?thesis using c unfolding clearedBefore_def 1 2 .
qed

lemma pipeline_cleared:
  assumes ok: "rowsOk db0 i (pid project)" and un: "subdomainUnique db0"
    and run: "pipeline c db0 project url i = (ws, r)"
    and k: "k < length ws" "statusOf (ws ! k) i = Some DEPLOYED"
  shows "clearedBefore ws i project k"
proof -
  from pipeline_trace [OF ok un run] k have k4: "k = 4"
    and c: "ws ! 3 = clearSubdomainForOtherDeployments (ws ! 2) (pid project) (slug project) i"
    by blast+
  show ?thesis
    unfolding clearedBefore_def k4 using c
    by (simp add: noOtherHolder_clear clear_findById_excluded)
qed

lemma buildAndDeploy_found:
  assumes dist: "distinct (map did (deployments db0))" and un: "subdomainUnique db0"
    and found: "findByIdWithProject db0 i = Some (d, project)"
    and run: "buildAndDeploy c db0 i = (ws, r)"
  shows "(\<forall>db \<in> set ws. subdomainUnique db) \<and>
         (\<forall>k < length ws. statusOf (ws ! k) i = Some DEPLOYED \<longrightarrow> clearedBefore ws i project k)"
proof -
  have ok: "rowsOk db0 i (pid project)"
    using dist found by (rule rowsOk_found)
  show ?thesis
  proof (cases "truthy (githubUrl project)")
    case False
    show ?thesis
    proof (cases "update db0 i (noChange\<lparr>u_status := Some FAILED\<rparr>)")
      case Inl
      then have "ws = []" using run found False by (auto simp: buildAndDeploy_def)
      then show ?thesis by simp
    next
      case (Inr db1)
      have ws: "ws = [db1]" using run found False Inr by (auto simp: buildAndDeploy_def)
      have "subdomainUnique db1"
        using un Inr by (rule unique_update_keep) (simp add: noChange_def)
      moreover have "statusOf db1 i = Some FAILED"
        using Inr by (rule statusOf_update_set) (simp add: noChange_def)
      ultimately show ?thesis using ws by simp
    qed
  next
    case True
    obtain ws0 r0 where p: "pipeline c db0 project (the (githubUrl project)) i = (ws0, r0)"
      by (cases "pipeline c db0 project (the (githubUrl project)) i")
    from pipeline_trace [OF ok un p]
    have inv0: "\<forall>db \<in> set ws0. rowsOk db i (pid project) \<and> subdomainUnique db"
      by blast
    have shape: "\<And>k. k < length ws0 \<Longrightarrow> statusOf (ws0 ! k) i = Some DEPLOYED
                   \<Longrightarrow> clearedBefore ws0 i project k"
      by (rule pipeline_cleared [OF ok un p])
    have same: "ws = ws0 \<Longrightarrow> ?thesis"
    proof -
      assume e: "ws = ws0"
      have "\<forall>db \<in> set ws0. subdomainUnique db" using inv0 by blast
      moreover have "\<forall>k < length ws0. statusOf (ws0 ! k) i = Some DEPLOYED \<longrightarrow>
                       clearedBefore ws0 i project k"
        using shape by blast
      ultimately show ?thesis unfolding e by (rule conjI)
    qed
    show ?thesis
    proof (cases r0)
      case (Inr u)
      then have "ws = ws0" using run found True p by (auto simp: buildAndDeploy_def)
      then show ?thesis by (rule same)
    next
      case (Inl err)
      have lastok: "rowsOk (last (db0 # ws0)) i (pid project) \<and> subdomainUnique (last (db0 # ws0))"
      proof -
        have "last (db0 # ws0) = db0 \<or> last (db0 # ws0) \<in> set ws0"
          by (cases "ws0 = []") simp_all
        then show ?thesis
        proof
          assume "last (db0 # ws0) = db0"
          then show ?thesis using ok un by simp
        next
          assume "last (db0 # ws0) \<in> set ws0"
          then show ?thesis using inv0 by blast
        qed
      qed
      show ?thesis
      proof (cases "update (last (db0 # ws0)) i
                         (noChange\<lparr>u_status := Some FAILED, u_buildStep := Some None,
                                    u_completedAt := Some (Some (clockEnd c))\<rparr>)")
        case (Inl e)
        then have "ws = ws0" using run found True p \<open>r0 = Inl err\<close>
          by (auto simp: buildAndDeploy_def)
        then show ?thesis by (rule same)
      next
        case (Inr dbf)
        then have ws: "ws = ws0 @ [dbf]" using run found True p \<open>r0 = Inl err\<close>
          by (auto simp: buildAndDeploy_def)
        have uf: "subdomainUnique dbf"
          using lastok Inr by (auto intro: unique_update_keep simp: noChange_def)
        have sf: "statusOf dbf i = Some FAILED"
          using Inr by (rule statusOf_update_set) (simp add: noChange_def)
        have a: "\<forall>db \<in> set ws. subdomainUnique db"
          using ws inv0 uf by simp
        have b: "\<forall>k < length ws. statusOf (ws ! k) i = Some DEPLOYED \<longrightarrow> clearedBefore ws i project k"
        proof (intro allI impI)
          fix k assume kl: "k < length ws" and st: "statusOf (ws ! k) i = Some DEPLOYED"
          have k0: "k < length ws0"
            using kl st sf ws by (cases "k = length ws0") (simp_all add: nth_append)
          then have "statusOf (ws0 ! k) i = Some DEPLOYED"
            using st ws by (simp add: nth_append)
          then have "clearedBefore ws0 i project k" using k0 by (intro shape)
          then show "clearedBefore ws i project k"
            unfolding ws using k0 by (intro clearedBefore_append)
        qed
        show ?thesis using a b by (rule conjI)
      qed
    qed
  qed
qed

lemma createDeployment_keeps_unique:
  assumes "subdomainUnique db"
  shows "subdomainUnique (fst (createDeployment c db p uid))"
proof -
  have "holders (db\<lparr>deployments := deployments db @ [newDeployment n p QUEUED]\<rparr>) q s
          = holders db q s" for n q s
    by (simp add: holders_def newDeployment_def)
  then have "subdomainUnique (db\<lparr>deployments := deployments db @ [newDeployment n p QUEUED]\<rparr>)"
    for n
    using assms by (simp add: subdomainUnique_def)
  then show ?thesis
    using assms
    by (simp add: createDeployment_def create_def Let_def split: option.splits sum.splits)
qed

text \<open>
  The row of the deployment after a run: when a step of the pipeline throws, when all
  steps succeed, and when the project has no repository URL.
\<close>

lemma update_row:
  assumes "findById db i = Some d"
  obtains db' where "update db i u = Inr db'" and "findById db' i = Some (applyUpdate u d)"
proof -
  have "findById db i \<noteq> None" using assms by simp
  then obtain db' where u: "update db i u = Inr db'"
    by (auto simp: update_def split: option.splits)
  from findById_update [OF u] assms have "findById db' i = Some (applyUpdate u d)" by simp
  with u show ?thesis by (rule that)
qed

lemma pipeline_outcome:
  assumes f: "findById db0 i = Some d"
  shows "\<exists>ws. pipeline c db0 project url i
                 = (ws, case stepResult c project url of Inl e \<Rightarrow> Inl e | Inr _ \<Rightarrow> Inr ()) \<and>
              (case stepResult c project url of
                 Inl e \<Rightarrow> \<exists>step. findById (last (db0 # ws)) i =
                     Some (d\<lparr>status := BUILDING, buildStep := Some step,
                             startedAt := Some (clockStart c)\<rparr>)
               | Inr port \<Rightarrow> findById (last (db0 # ws)) i =
                     Some (d\<lparr>status := DEPLOYED, buildStep := None, containerPort := Some port,
                             subdomain := Some (slug project), startedAt := Some (clockStart c),
                             completedAt := Some (clockEnd c)\<rparr>))"
proof -
  obtain db1 where u1: "update db0 i (noChange\<lparr>u_status := Some BUILDING,
        u_buildStep := Some (Some CLONING), u_startedAt := Some (Some (clockStart c))\<rparr>) = Inr db1"
    and r1: "findById db1 i = Some (applyUpdate (noChange\<lparr>u_status := Some BUILDING,
        u_buildStep := Some (Some CLONING), u_startedAt := Some (Some (clockStart c))\<rparr>) d)"
    using update_row [OF f] by blast
  have r1': "findById db1 i = Some (d\<lparr>status := BUILDING, buildStep := Some CLONING,
                             startedAt := Some (clockStart c)\<rparr>)"
    using r1 by (simp add: applyUpdate_def orKeep_def noChange_def)
  show ?thesis
  proof (cases "git_ensureRepo c url (slug project) (branch project)")
    case (Inl e)
    have "pipeline c db0 project url i = ([db1], Inl e)" using u1 Inl by (simp add: pipeline_def)
    moreover have "stepResult c project url = Inl e" using Inl by (simp add: stepResult_def)
    ultimately show ?thesis using r1' by auto
  next
    case (Inr workDir)
    note g = this
    obtain db2 where u2: "update db1 i (noChange\<lparr>u_buildStep := Some (Some BUILDING_IMAGE)\<rparr>) = Inr db2"
      and r2: "findById db2 i = Some (applyUpdate (noChange\<lparr>u_buildStep := Some (Some BUILDING_IMAGE)\<rparr>)
                 (d\<lparr>status := BUILDING, buildStep := Some CLONING, startedAt := Some (clockStart c)\<rparr>))"
      using update_row [OF r1'] by blast
    have r2': "findById db2 i = Some (d\<lparr>status := BUILDING, buildStep := Some BUILDING_IMAGE,
                             startedAt := Some (clockStart c)\<rparr>)"
      using r2 by (simp add: applyUpdate_def orKeep_def noChange_def)
    show ?thesis
    proof (cases "docker_buildImage c project workDir")
      case (Inl e)
      have "pipeline c db0 project url i = ([db1, db2], Inl e)"
        using u1 g u2 Inl by (simp add: pipeline_def)
      moreover have "stepResult c project url = Inl e" using g Inl by (simp add: stepResult_def)
      ultimately show ?thesis using r2' by auto
    next
      case (Inr imageName)
      note b = this
      obtain db3 where u3: "update db2 i (noChange\<lparr>u_buildStep := Some (Some STARTING)\<rparr>) = Inr db3"
        and r3: "findById db3 i = Some (applyUpdate (noChange\<lparr>u_buildStep := Some (Some STARTING)\<rparr>)
                 (d\<lparr>status := BUILDING, buildStep := Some BUILDING_IMAGE,
                    startedAt := Some (clockStart c)\<rparr>))"
        using update_row [OF r2'] by blast
      have r3': "findById db3 i = Some (d\<lparr>status := BUILDING, buildStep := Some STARTING,
                             startedAt := Some (clockStart c)\<rparr>)"
        using r3 by (simp add: applyUpdate_def orKeep_def noChange_def)
      show ?thesis
      proof (cases "docker_runContainer c imageName (ptype project) (''dropdeploy-'' @ slug project)")
        case (Inl e)
        have "pipeline c db0 project url i = ([db1, db2, db3], Inl e)"
          using u1 g u2 b u3 Inl by (simp add: pipeline_def)
        moreover have "stepResult c project url = Inl e"
          using g b Inl by (simp add: stepResult_def)
        ultimately show ?thesis using r3' by auto
      next
        case (Inr port)
        define db4 where "db4 = clearSubdomainForOtherDeployments db3 (pid project) (slug project) i"
        have r4: "findById db4 i = Some (d\<lparr>status := BUILDING, buildStep := Some STARTING,
                             startedAt := Some (clockStart c)\<rparr>)"
          using r3' by (simp add: db4_def clear_findById_excluded)
        obtain db5 where u5: "update db4 i (noChange\<lparr>u_status := Some DEPLOYED, u_buildStep := Some None,
                        u_containerPort := Some (Some port),
                        u_subdomain := Some (Some (slug project)),
                        u_completedAt := Some (Some (clockEnd c))\<rparr>) = Inr db5"
          and r5: "findById db5 i = Some (applyUpdate (noChange\<lparr>u_status := Some DEPLOYED,
                        u_buildStep := Some None, u_containerPort := Some (Some port),
                        u_subdomain := Some (Some (slug project)),
                        u_completedAt := Some (Some (clockEnd c))\<rparr>)
                 (d\<lparr>status := BUILDING, buildStep := Some STARTING,
                    startedAt := Some (clockStart c)\<rparr>))"
          using update_row [OF r4] by blast
        have r5': "findById db5 i = Some (d\<lparr>status := DEPLOYED, buildStep := None,
                             containerPort := Some port, subdomain := Some (slug project),
                             startedAt := Some (clockStart c), completedAt := Some (clockEnd c)\<rparr>)"
          using r5 by (simp add: applyUpdate_def orKeep_def noChange_def)
        have "pipeline c db0 project url i = ([db1, db2, db3, db4, db5], Inr ())"
          using u1 g u2 b u3 Inr u5 by (simp add: pipeline_def Let_def db4_def [symmetric])
        moreover have "stepResult c project url = Inr port"
          using g b Inr by (simp add: stepResult_def)
        ultimately show ?thesis using r5' by auto
      qed
    qed
  qed
qed

lemma buildAndDeploy_step_failure:
  assumes found: "findByIdWithProject db0 i = Some (d, project)"
    and url: "truthy (githubUrl project)"
    and err: "stepResult c project (the (githubUrl project)) = Inl err"
  shows "snd (buildAndDeploy c db0 i) = Inl err \<and>
         findById (finalDb db0 (fst (buildAndDeploy c db0 i))) i =
           Some (d\<lparr>status := FAILED, buildStep := None, startedAt := Some (clockStart c),
                   completedAt := Some (clockEnd c)\<rparr>)"
proof -
  have f: "findById db0 i = Some d"
    using found by (auto simp: findByIdWithProject_def split: option.splits)
  from pipeline_outcome [OF f, of c project "the (githubUrl project)"] err
  obtain ws step where p: "pipeline c db0 project (the (githubUrl project)) i = (ws, Inl err)"
    and r: "findById (last (db0 # ws)) i =
              Some (d\<lparr>status := BUILDING, buildStep := Some step, startedAt := Some (clockStart c)\<rparr>)"
    by auto
  obtain dbf where uf: "update (last (db0 # ws)) i (noChange\<lparr>u_status := Some FAILED,
        u_buildStep := Some None, u_completedAt := Some (Some (clockEnd c))\<rparr>) = Inr dbf"
    and rf: "findById dbf i = Some (applyUpdate (noChange\<lparr>u_status := Some FAILED,
        u_buildStep := Some None, u_completedAt := Some (Some (clockEnd c))\<rparr>)
          (d\<lparr>status := BUILDING, buildStep := Some step, startedAt := Some (clockStart c)\<rparr>))"
    using update_row [OF r] by blast
  have b: "buildAndDeploy c db0 i = (ws @ [dbf], Inl err)"
    using found url p uf by (simp add: buildAndDeploy_def)
  show ?thesis
    unfolding b using rf by (simp add: finalDb_def applyUpdate_def orKeep_def noChange_def)
qed

lemma buildAndDeploy_success:
  assumes found: "findByIdWithProject db0 i = Some (d, project)"
    and url: "truthy (githubUrl project)"
    and ok: "stepResult c project (the (githubUrl project)) = Inr port"
  shows "snd (buildAndDeploy c db0 i) = Inr () \<and>
         findById (finalDb db0 (fst (buildAndDeploy c db0 i))) i =
           Some (d\<lparr>status := DEPLOYED, buildStep := None, containerPort := Some port,
                   subdomain := Some (slug project), startedAt := Some (clockStart c),
                   completedAt := Some (clockEnd c)\<rparr>)"
proof -
  have f: "findById db0 i = Some d"
    using found by (auto simp: findByIdWithProject_def split: option.splits)
  from pipeline_outcome [OF f, of c project "the (githubUrl project)"] ok
  obtain ws where p: "pipeline c db0 project (the (githubUrl project)) i = (ws, Inr ())"
    and r: "findById (last (db0 # ws)) i =
              Some (d\<lparr>status := DEPLOYED, buildStep := None, containerPort := Some port,
                   subdomain := Some (slug project), startedAt := Some (clockStart c),
                   completedAt := Some (clockEnd c)\<rparr>)"
    by auto
  have b: "buildAndDeploy c db0 i = (ws, Inr ())"
    using found url p by (simp add: buildAndDeploy_def)
  show ?thesis unfolding b using r by (simp add: finalDb_def)
qed

lemma buildAndDeploy_empty_url:
  assumes found: "findByIdWithProject db0 i = Some (d, project)"
    and url: "\<not> truthy (githubUrl project)"
  shows "snd (buildAndDeploy c db0 i) = Inr () \<and>
         findById (finalDb db0 (fst (buildAndDeploy c db0 i))) i = Some (d\<lparr>status := FAILED\<rparr>)"
proof -
  have f: "findById db0 i = Some d"
    using found by (auto simp: findByIdWithProject_def split: option.splits)
  obtain db1 where u: "update db0 i (noChange\<lparr>u_status := Some FAILED\<rparr>) = Inr db1"
    and r: "findById db1 i = Some (applyUpdate (noChange\<lparr>u_status := Some FAILED\<rparr>) d)"
    using update_row [OF f] by blast
  have b: "buildAndDeploy c db0 i = ([db1], Inr ())"
    using found url u by (simp add: buildAndDeploy_def)
  show ?thesis
    unfolding b using r by (simp add: finalDb_def applyUpdate_def orKeep_def noChange_def)
qed

lemmas run_defs = buildAndDeploy_def pipeline_def findByIdWithProject_def findById_def
  findProjectById_def update_def applyUpdate_def orKeep_def noChange_def
  clearSubdomainForOtherDeployments_def exampleDb_def exampleProject_def
  exampleCollaborators_def newDeployment_def truthy_def Let_def

section \<open>Claims about the deployment service\<close>

text \<open>
  Claim C3. In a store whose deployment identifiers are distinct and in which every
  project has at most one deployment holding its slug, every store written by
  \<open>buildAndDeploy\<close> has that property again; and whenever a write leaves the deployment
  of the run with status \<open>DEPLOYED\<close>, the store before that write is the result of
  \<open>clearSubdomainForOtherDeployments\<close>, in which no other deployment of the project holds
  the slug and from which the row of the run was excluded. (\<open>createDeployment\<close> keeps the
  property too: \<open>createDeployment_keeps_unique\<close>.)
\<close>

theorem buildAndDeploy_subdomain_unique:
  assumes "distinct (map did (deployments db0))" and "subdomainUnique db0"
    and "buildAndDeploy c db0 i = (ws, r)"
  shows "(\<forall>db \<in> set ws. subdomainUnique db) \<and>
         (\<forall>d project k. findByIdWithProject db0 i = Some (d, project) \<and> k < length ws \<and>
              statusOf (ws ! k) i = Some DEPLOYED \<longrightarrow> clearedBefore ws i project k)"
proof (cases "findByIdWithProject db0 i")
  case None
  then have "ws = []" using assms(3) by (auto simp: buildAndDeploy_def)
  then show ?thesis by simp
next
  case (Some dp)
  obtain d project where dp: "dp = (d, project)" by (cases dp)
  note F = buildAndDeploy_found [OF assms(1,2) Some [unfolded dp] assms(3)]
  show ?thesis
  proof (intro conjI allI impI)
    show "\<forall>db \<in> set ws. subdomainUnique db" using F by (rule conjunct1)
  next
    fix d' project' k
    assume a: "findByIdWithProject db0 i = Some (d', project') \<and> k < length ws \<and>
              statusOf (ws ! k) i = Some DEPLOYED"
    then have "project' = project" using Some dp by simp
    then show "clearedBefore ws i project' k" using F a by blast
  qed
qed

theorem buildAndDeploy_subdomain_unique_witness:
  "distinct (map did (deployments exampleDb)) \<and> subdomainUnique exampleDb \<and>
   findByIdWithProject exampleDb ''d2'' = Some (newDeployment ''d2'' ''p1'' QUEUED, exampleProject) \<and>
   length (fst (buildAndDeploy exampleCollaborators exampleDb ''d2'')) = 5 \<and>
   statusOf (fst (buildAndDeploy exampleCollaborators exampleDb ''d2'') ! 4) ''d2'' = Some DEPLOYED \<and>
   list_all subdomainUnique (fst (buildAndDeploy exampleCollaborators exampleDb ''d2'')) \<and>
   clearedBefore (fst (buildAndDeploy exampleCollaborators exampleDb ''d2'')) ''d2'' exampleProject 4 \<and>
   map (map subdomain \<circ> deployments) (fst (buildAndDeploy exampleCollaborators exampleDb ''d2'')) =
     [[Some ''site'', None], [Some ''site'', None], [Some ''site'', None], [None, None],
      [None, Some ''site'']]"
proof -
  have h1: "distinct (map did (deployments exampleDb))"
    by (simp add: exampleDb_def newDeployment_def)
  have h2: "subdomainUnique exampleDb"
    by (simp add: subdomainUnique_def holders_def exampleDb_def exampleProject_def newDeployment_def)
  have h3: "findByIdWithProject exampleDb ''d2'' =
              Some (newDeployment ''d2'' ''p1'' QUEUED, exampleProject)"
    by (simp add: findByIdWithProject_def findById_def findProjectById_def exampleDb_def
        exampleProject_def newDeployment_def)
  have h4: "length (fst (buildAndDeploy exampleCollaborators exampleDb ''d2'')) = 5"
    by (simp add: run_defs)
  have h5: "statusOf (fst (buildAndDeploy exampleCollaborators exampleDb ''d2'') ! 4) ''d2''
              = Some DEPLOYED"
    by (simp add: run_defs statusOf_def)
  have h6: "map (map subdomain \<circ> deployments)
              (fst (buildAndDeploy exampleCollaborators exampleDb ''d2'')) =
     [[Some ''site'', None], [Some ''site'', None], [Some ''site'', None], [None, None],
      [None, Some ''site'']]"
    by (simp add: run_defs)
  note t = buildAndDeploy_subdomain_unique [OF h1 h2,
      of exampleCollaborators "''d2''" "fst (buildAndDeploy exampleCollaborators exampleDb ''d2'')"
         "snd (buildAndDeploy exampleCollaborators exampleDb ''d2'')"]
  have u: "list_all subdomainUnique (fst (buildAndDeploy exampleCollaborators exampleDb ''d2''))"
    using t by (simp add: list_all_iff)
  have c: "clearedBefore (fst (buildAndDeploy exampleCollaborators exampleDb ''d2'')) ''d2''
             exampleProject 4"
    using t h3 h4 h5 by simp
  show ?thesis using h1 h2 h3 h4 h5 h6 u c by simp
qed

text \<open>
  Claim C1. A clone that throws leaves the deployment \<open>FAILED\<close> with \<open>buildStep\<close> null and
  \<open>completedAt\<close> set and the error is thrown again, but the \<open>logs\<close> column of the row is
  still null: the \<open>catch\<close> block writes \<open>status\<close>, \<open>buildStep\<close> and \<open>completedAt\<close> only
  (for every store and every failing step: \<open>buildAndDeploy_step_failure\<close>).
\<close>

theorem buildAndDeploy_failure_keeps_logs:
  "snd (buildAndDeploy failingClone exampleDb ''d2'') = Inl (Error ''fatal: repository not found'') \<and>
   findById (finalDb exampleDb (fst (buildAndDeploy failingClone exampleDb ''d2''))) ''d2'' =
     Some \<lparr>did = ''d2'', projectId = ''p1'', status = FAILED, buildStep = None,
            containerPort = None, subdomain = None, logs = None, startedAt = Some 3000,
            completedAt = Some 4000\<rparr>"
  by (simp add: run_defs failingClone_def finalDb_def)

text \<open>
  Claim C2. For a project whose repository URL is null, \<open>createDeployment\<close> stores a
  \<open>QUEUED\<close> deployment and the run of \<open>buildAndDeploy\<close> for it returns normally, leaving
  the deployment with status \<open>FAILED\<close> and \<open>completedAt\<close> null: that branch writes \<open>status\<close>
  only (for every store: \<open>buildAndDeploy_empty_url\<close>), whereas a run of the pipeline ends
  with \<open>completedAt\<close> set (\<open>buildAndDeploy_step_failure\<close>, \<open>buildAndDeploy_success\<close>).
\<close>

theorem buildAndDeploy_empty_url_completedAt:
  "snd (snd (createDeployment exampleCollaborators noUrlDb ''p1'' ''u1''))
     = Inr (newDeployment ''d3'' ''p1'' QUEUED) \<and>
   snd (buildAndDeploy exampleCollaborators createdDb ''d3'') = Inr () \<and>
   findById (finalDb createdDb (fst (buildAndDeploy exampleCollaborators createdDb ''d3''))) ''d3'' =
     Some \<lparr>did = ''d3'', projectId = ''p1'', status = FAILED, buildStep = None,
            containerPort = None, subdomain = None, logs = None, startedAt = None,
            completedAt = None\<rparr>"
  by (simp add: run_defs noUrlDb_def finalDb_def createdDb_def createDeployment_def create_def)




section \<open>Claims about the container service\<close>

lemma showNat_3000: "showNat 3000 = ''3000''"
  by (simp add: showNat.simps)

lemma showNat_30: "showNat 30 = ''30''"
  by (simp add: showNat.simps)

lemma findAvailablePort_range:
  assumes "0 \<le> random env" and "random env < 1"
  shows "8000 \<le> findAvailablePort env \<and> findAvailablePort env \<le> 9999"
proof -
  define k where "k = \<lfloor>random env * 2000\<rfloor>"
  have "0 \<le> k" using assms(1) by (simp add: k_def)
  moreover have "k < 2000"
    using assms(2) by (simp add: k_def floor_less_iff)
  moreover have "findAvailablePort env = 8000 + nat k"
    by (simp add: findAvailablePort_def k_def)
  ultimately show ?thesis by linarith
qed

text \<open>
  Claim C4. The port returned by \<open>findAvailablePort\<close> lies between 8000 and 9999
  (\<open>findAvailablePort_range\<close>), but nothing checks that it is free: on a host where port
  8000 is bound and \<open>Math.random\<close> gives 0 the port returned is 8000.
\<close>

theorem findAvailablePort_returns_bound_port:
  "findAvailablePort busyHost = 8000 \<and> 8000 \<in> boundPorts busyHost"
  by (simp add: findAvailablePort_def busyHost_def)

lemma noImageMessage_names_start_script:
  \<open>str_includes noImageMessage ''package.json has a "start" script''\<close>
  by (simp add: noImageMessage_def)

text \<open>
  Claim C7. When the Dockerfile is written, the configuration patched where it applies,
  the build stream ends without error and without an error chunk, and the inspect of the
  image fails, \<open>buildImage\<close> has made the inspect call after the build and throws the
  normalized error, whose message names the \<open>start\<close> script of \<open>package.json\<close>; no image
  reference is returned.
\<close>

theorem buildImage_missing_image:
  assumes "writeFile env (path_join env contextPath ''Dockerfile'') (getDockerfileForProject project) = None"
    and "(if ptype project = ''NEXTJS'' then patchNextConfig env contextPath else None) = None"
    and "engine_buildImage env contextPath (''dropdeploy/'' @ slug project @ '':latest'') = Inr pr"
    and "finishErr pr = None" and "\<not> list_ex isBuildError (finishOutput pr)"
    and "imageInspect env (''dropdeploy/'' @ slug project @ '':latest'') = Some e"
  shows \<open>buildImage env project contextPath =
           ([BuildImage contextPath (''dropdeploy/'' @ slug project @ '':latest''),
             ImageInspect (''dropdeploy/'' @ slug project @ '':latest'')],
            Inl (Error noImageMessage)) \<and>
         str_includes noImageMessage ''package.json has a "start" script''\<close>
proof -
  have "find isBuildError (finishOutput pr) = None"
    using assms(5) by (simp add: find_None_iff list_ex_iff)
  then have "followProgress pr = None"
    using assms(4) by (simp add: followProgress_def)
  then have "buildImage env project contextPath =
           ([BuildImage contextPath (''dropdeploy/'' @ slug project @ '':latest''),
             ImageInspect (''dropdeploy/'' @ slug project @ '':latest'')],
            Inl (Error noImageMessage))"
    using assms(1,2,3,6) by (simp add: buildImage_def Let_def)
  then show ?thesis using noImageMessage_names_start_script by (rule conjI)
qed


theorem buildImage_missing_image_witness:
  "writeFile imagelessEnv (path_join imagelessEnv ''/srv/projects/site'' ''Dockerfile'')
     (getDockerfileForProject (exampleProject\<lparr>ptype := ''NODEJS''\<rparr>)) = None \<and>
   engine_buildImage imagelessEnv ''/srv/projects/site'' ''dropdeploy/site:latest'' = Inr exampleProgress \<and>
   finishErr exampleProgress = None \<and>
   \<not> list_ex isBuildError (finishOutput exampleProgress) \<and>
   imageInspect imagelessEnv ''dropdeploy/site:latest'' = Some (Error ''no such image'') \<and>
   buildImage imagelessEnv (exampleProject\<lparr>ptype := ''NODEJS''\<rparr>) ''/srv/projects/site'' =
     ([BuildImage ''/srv/projects/site'' ''dropdeploy/site:latest'',
       ImageInspect ''dropdeploy/site:latest''],
      Inl (Error noImageMessage))"
proof -
  let ?p = "exampleProject\<lparr>ptype := ''NODEJS''\<rparr>"
  let ?pr = exampleProgress
  have s: "slug ?p = ''site''" "ptype ?p = ''NODEJS''" by (simp_all add: exampleProject_def)
  have a1: "writeFile imagelessEnv (path_join imagelessEnv ''/srv/projects/site'' ''Dockerfile'')
              (getDockerfileForProject ?p) = None"
    by (simp add: imagelessEnv_def exampleDockerEnv_def)
  have a2: "(if ptype ?p = ''NEXTJS'' then patchNextConfig imagelessEnv ''/srv/projects/site''
             else None) = None"
    by (simp add: s)
  have a3: "engine_buildImage imagelessEnv ''/srv/projects/site''
              (''dropdeploy/'' @ slug ?p @ '':latest'') = Inr ?pr"
    by (simp add: imagelessEnv_def exampleDockerEnv_def)
  have a4: "finishErr ?pr = None" by (simp add: exampleProgress_def)
  have a5: "\<not> list_ex isBuildError (finishOutput ?pr)"
    by (simp add: exampleProgress_def isBuildError_def)
  have a6: "imageInspect imagelessEnv (''dropdeploy/'' @ slug ?p @ '':latest'')
              = Some (Error ''no such image'')"
    by (simp add: imagelessEnv_def exampleDockerEnv_def)
  show ?thesis
    using buildImage_missing_image [OF a1 a2 a3 a4 a5 a6, THEN conjunct1] a1 a3 a4 a5 a6
    by (simp add: s)
qed

lemma map_of_templates_unknown:
  assumes "t \<notin> {''STATIC'', ''NODEJS'', ''NEXTJS'', ''DJANGO''}"
  shows "map_of DOCKERFILE_TEMPLATES t = None" and "map_of CONTAINER_PORTS t = None"
  using assms by (simp_all add: DOCKERFILE_TEMPLATES_def CONTAINER_PORTS_def)

lemma static_template_exposes_80: "str_includes STATIC_TEMPLATE ''EXPOSE 80''"
  by (simp add: STATIC_TEMPLATE_def)

lemma runContainer_create_options:
  assumes "CreateContainer opts \<in> set (fst (runContainer svc env imageName t cn))"
  shows "ExposedPorts opts = [toStringJs (containerPortFor t) @ ''/tcp''] \<and>
         map fst (PortBindings opts) = [toStringJs (containerPortFor t) @ ''/tcp'']"
proof -
  have r: "CreateContainer opts \<notin> set (removeExisting env c)" for c
    by (simp add: removeExisting_def split: sum.splits option.splits)
  show ?thesis
    using assms r
    by (auto simp: runContainer_def Let_def split: option.splits sum.splits if_splits)
qed

lemma runContainer_creates:
  assumes "imageInspect env imageName = None"
  shows "\<exists>opts. CreateContainer opts \<in> set (fst (runContainer svc env imageName t cn))"
  using assms
  by (auto simp: runContainer_def Let_def split: option.splits sum.splits)

text \<open>
  The two fallbacks where they are taken. For every project type that is none of
  \<open>STATIC\<close>, \<open>NODEJS\<close>, \<open>NEXTJS\<close>, \<open>DJANGO\<close> and not the name of a property inherited from
  \<open>Object.prototype\<close>, \<open>getDockerfileForProject\<close> returns the \<open>STATIC\<close> recipe, which exposes
  port 80 (the port declared for \<open>STATIC\<close>), while \<open>runContainer\<close> falls back to port 3000:
  the container it creates has \<open>3000/tcp\<close> as its exposed port and as the key of its port
  binding.
\<close>

theorem unknown_type_fallbacks:
  assumes "t \<notin> {''STATIC'', ''NODEJS'', ''NEXTJS'', ''DJANGO''}"
    and "map_of Object_prototype t = None"
  shows "getDockerfileForProject (project\<lparr>ptype := t\<rparr>) = JsString STATIC_TEMPLATE \<and>
         str_includes STATIC_TEMPLATE ''EXPOSE 80'' \<and>
         getProperty CONTAINER_PORTS ''STATIC'' = JsNumber 80 \<and>
         containerPortFor t = JsNumber 3000 \<and>
         (imageInspect env imageName = None \<longrightarrow>
            (\<exists>opts. CreateContainer opts \<in> set (fst (runContainer svc env imageName t cn)))) \<and>
         (\<forall>opts. CreateContainer opts \<in> set (fst (runContainer svc env imageName t cn)) \<longrightarrow>
            ExposedPorts opts = [''3000/tcp''] \<and> map fst (PortBindings opts) = [''3000/tcp''])"
proof -
  note u = map_of_templates_unknown [OF assms(1)]
  have 1: "getDockerfileForProject (project\<lparr>ptype := t\<rparr>) = JsString STATIC_TEMPLATE"
    using u(1) assms(2)
    by (simp add: getDockerfileForProject_def hasProperty_def getProperty_def)
       (simp add: DOCKERFILE_TEMPLATES_def)
  have 2: "getProperty CONTAINER_PORTS ''STATIC'' = JsNumber 80"
    by (simp add: getProperty_def CONTAINER_PORTS_def)
  have 3: "containerPortFor t = JsNumber 3000"
    using u(2) assms(2) by (simp add: containerPortFor_def getProperty_def)
  have 4: "toStringJs (containerPortFor t) @ ''/tcp'' = ''3000/tcp''"
    by (simp add: 3 toStringJs_def showNat_3000)
  show ?thesis
    using 1 2 3 static_template_exposes_80 runContainer_creates [of env imageName svc t cn]
      runContainer_create_options [of _ svc env imageName t cn]
    unfolding 4 by blast
qed

theorem unknown_type_fallbacks_witness:
  "''RUST'' \<notin> {''STATIC'', ''NODEJS'', ''NEXTJS'', ''DJANGO''} \<and>
   map_of Object_prototype ''RUST'' = None \<and>
   getDockerfileForProject (exampleProject\<lparr>ptype := ''RUST''\<rparr>) = JsString STATIC_TEMPLATE \<and>
   containerPortFor ''RUST'' = JsNumber 3000 \<and>
   imageInspect exampleDockerEnv ''dropdeploy/site:latest'' = None \<and>
   list_ex (\<lambda>c. \<exists>opts. c = CreateContainer opts \<and> ExposedPorts opts = [''3000/tcp''] \<and>
                 map fst (PortBindings opts) = [''3000/tcp''])
     (fst (runContainer dockerService exampleDockerEnv ''dropdeploy/site:latest'' ''RUST''
            (Some ''dropdeploy-site'')))"
proof -
  have a: "''RUST'' \<notin> {''STATIC'', ''NODEJS'', ''NEXTJS'', ''DJANGO''}" by simp
  have b: "map_of Object_prototype ''RUST'' = None" by (simp add: Object_prototype_def)
  have c: "imageInspect exampleDockerEnv ''dropdeploy/site:latest'' = None"
    by (simp add: exampleDockerEnv_def)
  note t = unknown_type_fallbacks [OF a b, of exampleProject exampleDockerEnv
      "''dropdeploy/site:latest''" dockerService "Some ''dropdeploy-site''"]
  note t1 = t [THEN conjunct1]
  note t4 = t [THEN conjunct2, THEN conjunct2, THEN conjunct2, THEN conjunct1]
  note t5 = t [THEN conjunct2, THEN conjunct2, THEN conjunct2, THEN conjunct2, THEN conjunct1]
  note t6 = t [THEN conjunct2, THEN conjunct2, THEN conjunct2, THEN conjunct2, THEN conjunct2]
  obtain opts where
    o: "CreateContainer opts \<in> set (fst (runContainer dockerService exampleDockerEnv
          ''dropdeploy/site:latest'' ''RUST'' (Some ''dropdeploy-site'')))"
    using t5 [rule_format, OF c] ..
  note e = t6 [rule_format, OF o]
  have l: "list_ex (\<lambda>c. \<exists>opts. c = CreateContainer opts \<and> ExposedPorts opts = [''3000/tcp''] \<and>
                 map fst (PortBindings opts) = [''3000/tcp''])
     (fst (runContainer dockerService exampleDockerEnv ''dropdeploy/site:latest'' ''RUST''
            (Some ''dropdeploy-site'')))"
    unfolding list_ex_iff
    by (rule bexI [OF _ o], rule exI [of _ opts], rule conjI [OF refl e])
  show ?thesis by (intro conjI a b t1 t4 c l)
qed

lemma showNat_8000: "showNat 8000 = ''8000''"
  by (simp add: showNat.simps)

text \<open>
  Claim C10. The type \<open>toString\<close> is outside the four types, and neither fallback is taken
  for it: \<open>'toString' in DOCKERFILE_TEMPLATES\<close> holds through the prototype, so
  \<open>getDockerfileForProject\<close>, declared to return the Dockerfile text, returns the inherited
  function and not the \<open>STATIC\<close> recipe; \<open>CONTAINER_PORTS['toString']\<close> is that function
  too, so \<open>??\<close> does not fall back to 3000 and the container is created with the text of
  the function as its exposed port and as the key of its port binding.
\<close>

theorem inherited_type_name_misses_fallbacks:
  "''toString'' \<notin> {''STATIC'', ''NODEJS'', ''NEXTJS'', ''DJANGO''} \<and>
   getDockerfileForProject (exampleProject\<lparr>ptype := ''toString''\<rparr>)
     = JsFunction ''function toString() { [native code] }'' \<and>
   getDockerfileForProject (exampleProject\<lparr>ptype := ''toString''\<rparr>) \<noteq> JsString STATIC_TEMPLATE \<and>
   containerPortFor ''toString'' = JsFunction ''function toString() { [native code] }'' \<and>
   containerPortFor ''toString'' \<noteq> JsNumber 3000 \<and>
   runContainer dockerService exampleDockerEnv ''dropdeploy/site:latest'' ''toString''
       (Some ''dropdeploy-site'') =
     ([ImageInspect ''dropdeploy/site:latest'', ContainerInspect ''dropdeploy-site'',
       CreateContainer \<lparr>Image = ''dropdeploy/site:latest'', name = Some ''dropdeploy-site'',
         ExposedPorts = [''function toString() { [native code] }/tcp''],
         PortBindings = [(''function toString() { [native code] }/tcp'', [''8000''])],
         Memory = 536870912, CpuShares = 1024\<rparr>,
       ContainerStart ''c0ffee''],
      Inr 8000)"
proof -
  have g: "getDockerfileForProject (exampleProject\<lparr>ptype := ''toString''\<rparr>)
             = JsFunction ''function toString() { [native code] }''"
    by (simp add: getDockerfileForProject_def hasProperty_def getProperty_def
        DOCKERFILE_TEMPLATES_def Object_prototype_def)
  have p: "containerPortFor ''toString'' = JsFunction ''function toString() { [native code] }''"
    by (simp add: containerPortFor_def getProperty_def CONTAINER_PORTS_def Object_prototype_def)
  have h: "findAvailablePort exampleDockerEnv = 8000"
    by (simp add: findAvailablePort_def exampleDockerEnv_def)
  have r: "runContainer dockerService exampleDockerEnv ''dropdeploy/site:latest'' ''toString''
       (Some ''dropdeploy-site'') =
     ([ImageInspect ''dropdeploy/site:latest'', ContainerInspect ''dropdeploy-site'',
       CreateContainer \<lparr>Image = ''dropdeploy/site:latest'', name = Some ''dropdeploy-site'',
         ExposedPorts = [''function toString() { [native code] }/tcp''],
         PortBindings = [(''function toString() { [native code] }/tcp'', [''8000''])],
         Memory = 536870912, CpuShares = 1024\<rparr>,
       ContainerStart ''c0ffee''],
      Inr 8000)"
    unfolding runContainer_def p h
    by (simp add: exampleDockerEnv_def removeExisting_def truthy_def toStringJs_def
        showNat_8000 dockerService_def Let_def)
  show ?thesis using g p r by simp
qed

section \<open>Claims about the git service\<close>

text \<open>
  Claim C5. With a valid configuration and the projects directory created, \<open>ensureRepo\<close>
  issues a clone exactly when \<open>stat\<close> of \<open>rootDir/slug/.git\<close> fails, and then the clone is its
  only command. Otherwise it issues no clone: its commands are an initial part of the
  update commands (the refspec for all branches; the fetch, with unshallow and prune
  exactly when the \<open>shallow\<close> marker is present and with prune only otherwise; the
  checkout; the tracking branch from \<open>origin/branch\<close> exactly when the plain checkout
  failed; the hard reset to \<open>origin/branch\<close>), cut where a command fails, and all of them
  when the commands other than the plain checkout succeed, in which case the work
  directory is returned.
\<close>

theorem ensureRepo_commands:
  assumes "getConfig_PROJECTS_DIR env = Inr projectsDir" and "mkdir env projectsDir = None"
    and "workDir = git_path_join env projectsDir projectSlug"
    and "gitDir = git_path_join env workDir ''.git''"
    and "shallow = stat env (git_path_join env gitDir ''shallow'')"
    and "checkoutFailed = (git env (Some workDir, Checkout branch') \<noteq> None)"
  shows "(list_ex isClone (fst (ensureRepo env repoUrl projectSlug branch')) \<longleftrightarrow> \<not> stat env gitDir) \<and>
         (\<not> stat env gitDir \<longrightarrow>
            fst (ensureRepo env repoUrl projectSlug branch')
              = [(None, Clone repoUrl workDir [''-b'', branch'])]) \<and>
         (stat env gitDir \<longrightarrow>
            (\<exists>n. fst (ensureRepo env repoUrl projectSlug branch')
                   = take n (updateCommands workDir shallow checkoutFailed branch')) \<and>
            ((\<forall>c \<in> set (updateCommands workDir shallow checkoutFailed branch').
                 c \<noteq> (Some workDir, Checkout branch') \<longrightarrow> git env c = None) \<longrightarrow>
               ensureRepo env repoUrl projectSlug branch'
                 = (updateCommands workDir shallow checkoutFailed branch', Inr workDir)))"
proof (cases "stat env gitDir")
  case False
  then have "fst (ensureRepo env repoUrl projectSlug branch')
               = [(None, Clone repoUrl workDir [''-b'', branch'])]"
    using assms(1-4) by (simp add: ensureRepo_def Let_def split: option.splits)
  then show ?thesis using False by (simp add: isClone_def)
next
  case True
  define config where "config = (Some workDir, Raw [''config'', ''remote.origin.fetch'', ''+refs/heads/*:refs/remotes/origin/*''])"
  define fetch where "fetch = (Some workDir, Fetch (if shallow then [''origin'', ''--unshallow'', ''--prune'']
                            else [''origin'', ''--prune'']))"
  define checkout where "checkout = (Some workDir, Checkout branch')"
  define tracking where "tracking = (Some workDir, CheckoutBranch branch' (''origin/'' @ branch'))"
  define reset where "reset = (Some workDir, Reset [''--hard'', ''origin/'' @ branch'])"
  have uc: "updateCommands workDir shallow b branch'
              = [config, fetch, checkout] @ (if b then [tracking] else []) @ [reset]" for b
    by (simp add: updateCommands_def config_def fetch_def checkout_def tracking_def reset_def)
  have er: "ensureRepo env repoUrl projectSlug branch' = fetchAndReset env workDir gitDir branch'"
    using assms(1-4) True by (simp add: ensureRepo_def Let_def)
  have fr: "fetchAndReset env workDir gitDir branch' =
     (case git env config of
        Some e \<Rightarrow> ([config], Inl e)
      | None \<Rightarrow>
       (case git env fetch of
         Some e \<Rightarrow> ([config, fetch], Inl e)
       | None \<Rightarrow>
        (case (case git env checkout of
                  None \<Rightarrow> ([checkout], None)
                | Some _ \<Rightarrow> ([checkout, tracking], git env tracking)) of
          (switch, Some e) \<Rightarrow> ([config, fetch] @ switch, Inl e)
        | (switch, None) \<Rightarrow>
         (case git env reset of
           Some e \<Rightarrow> ([config, fetch] @ switch @ [reset], Inl e)
         | None \<Rightarrow> ([config, fetch] @ switch @ [reset], Inr workDir)))))"
    unfolding fetchAndReset_def Let_def config_def fetch_def checkout_def tracking_def reset_def
      refspecAllBranches_def assms(5)
    by (simp split: option.splits prod.splits)
  have cf: "checkoutFailed = (git env checkout \<noteq> None)"
    by (simp add: assms(6) checkout_def)
  have noclone: "\<not> list_ex isClone [config, fetch, checkout, tracking, reset]"
    by (simp add: isClone_def config_def fetch_def checkout_def tracking_def reset_def)
  have pre: "\<exists>n. fst (fetchAndReset env workDir gitDir branch')
               = take n (updateCommands workDir shallow checkoutFailed branch')"
  proof (cases "git env config")
    case (Some e)
    then have "fst (fetchAndReset env workDir gitDir branch')
        = take 1 (updateCommands workDir shallow checkoutFailed branch')"
      by (simp add: fr uc)
    then show ?thesis ..
  next
    case None
    note c1 = this
    show ?thesis
    proof (cases "git env fetch")
      case (Some e)
      then have "fst (fetchAndReset env workDir gitDir branch')
          = take 2 (updateCommands workDir shallow checkoutFailed branch')"
        using c1 by (simp add: fr uc)
      then show ?thesis ..
    next
      case None
      note c2 = this
      show ?thesis
      proof (cases "git env checkout")
        case None
        note c3 = this
        then have f: "\<not> checkoutFailed" by (simp add: cf)
        show ?thesis
        proof (cases "git env reset")
          case None
          then have "fst (fetchAndReset env workDir gitDir branch')
            = take 4 (updateCommands workDir shallow checkoutFailed branch')"
            using c1 c2 c3 f by (simp add: fr uc)
          then show ?thesis ..
        next
          case (Some e)
          then have "fst (fetchAndReset env workDir gitDir branch')
            = take 4 (updateCommands workDir shallow checkoutFailed branch')"
            using c1 c2 c3 f by (simp add: fr uc)
          then show ?thesis ..
        qed
      next
        case (Some e3)
        note c3 = this
        then have f: "checkoutFailed" by (simp add: cf)
        show ?thesis
        proof (cases "git env tracking")
          case (Some e)
          then have "fst (fetchAndReset env workDir gitDir branch')
            = take 4 (updateCommands workDir shallow checkoutFailed branch')"
            using c1 c2 c3 f by (simp add: fr uc)
          then show ?thesis ..
        next
          case None
          note c4 = this
          have "fst (fetchAndReset env workDir gitDir branch')
            = take 5 (updateCommands workDir shallow checkoutFailed branch')"
            using c1 c2 c3 c4 f by (cases "git env reset") (simp_all add: fr uc)
          then show ?thesis ..
        qed
      qed
    qed
  qed
  have full: "ensureRepo env repoUrl projectSlug branch'
                 = (updateCommands workDir shallow checkoutFailed branch', Inr workDir)"
    if ok: "\<forall>c \<in> set (updateCommands workDir shallow checkoutFailed branch').
                 c \<noteq> (Some workDir, Checkout branch') \<longrightarrow> git env c = None"
  proof -
    have n1: "config \<noteq> checkout" "fetch \<noteq> checkout" "reset \<noteq> checkout" "tracking \<noteq> checkout"
      by (simp_all add: config_def fetch_def reset_def checkout_def tracking_def)
    have g1: "git env config = None" "git env fetch = None" "git env reset = None"
      using ok n1 unfolding uc checkout_def [symmetric] by auto
    have g2: "checkoutFailed \<Longrightarrow> git env tracking = None"
      using ok n1 unfolding uc checkout_def [symmetric] by auto
    show ?thesis
      unfolding er fr uc using g1 g2 cf
      by (cases "git env checkout") simp_all
  qed
  have ncl: "\<not> list_ex isClone (take n (updateCommands workDir shallow checkoutFailed branch'))" for n
  proof -
    have "set (take n (updateCommands workDir shallow checkoutFailed branch'))
            \<subseteq> set [config, fetch, checkout, tracking, reset]"
      using set_take_subset [of n "updateCommands workDir shallow checkoutFailed branch'"]
      by (auto simp: uc split: if_splits)
    then show ?thesis using noclone unfolding list_ex_iff by blast
  qed
  have a: "\<not> list_ex isClone (fst (ensureRepo env repoUrl projectSlug branch'))"
    using pre ncl unfolding er by metis
  show ?thesis using True a pre full unfolding er by blast
qed

theorem ensureRepo_commands_witness:
  "getConfig_PROJECTS_DIR (exampleGitEnv True True False) = Inr ''/srv/projects'' \<and>
   mkdir (exampleGitEnv True True False) ''/srv/projects'' = None \<and>
   stat (exampleGitEnv True True False) ''/srv/projects/site/.git'' \<and>
   git (exampleGitEnv True True False) (Some ''/srv/projects/site'', Checkout ''dev'') \<noteq> None \<and>
   ensureRepo (exampleGitEnv True True False) ''https://git.example.test/u/site.git'' ''site'' ''dev''
     = ([(Some ''/srv/projects/site'',
          Raw [''config'', ''remote.origin.fetch'', ''+refs/heads/*:refs/remotes/origin/*'']),
         (Some ''/srv/projects/site'', Fetch [''origin'', ''--unshallow'', ''--prune'']),
         (Some ''/srv/projects/site'', Checkout ''dev''),
         (Some ''/srv/projects/site'', CheckoutBranch ''dev'' ''origin/dev''),
         (Some ''/srv/projects/site'', Reset [''--hard'', ''origin/dev''])],
        Inr ''/srv/projects/site'') \<and>
   \<not> list_ex isClone (fst (ensureRepo (exampleGitEnv True True False)
        ''https://git.example.test/u/site.git'' ''site'' ''dev'')) \<and>
   \<not> stat (exampleGitEnv False False True) ''/srv/projects/site/.git'' \<and>
   fst (ensureRepo (exampleGitEnv False False True) ''https://git.example.test/u/site.git'' ''site'' ''dev'')
     = [(None, Clone ''https://git.example.test/u/site.git'' ''/srv/projects/site'' [''-b'', ''dev''])] \<and>
   list_ex isClone (fst (ensureRepo (exampleGitEnv False False True)
        ''https://git.example.test/u/site.git'' ''site'' ''dev''))"
proof -
  let ?u = "exampleGitEnv True True False" and ?c = "exampleGitEnv False False True"
  let ?url = "''https://git.example.test/u/site.git''"
  have u1: "getConfig_PROJECTS_DIR ?u = Inr ''/srv/projects''"
    and u2: "mkdir ?u ''/srv/projects'' = None"
    and u3: "''/srv/projects/site'' = git_path_join ?u ''/srv/projects'' ''site''"
    and u4: "''/srv/projects/site/.git'' = git_path_join ?u ''/srv/projects/site'' ''.git''"
    and u5: "True = stat ?u (git_path_join ?u ''/srv/projects/site/.git'' ''shallow'')"
    and u6: "True = (git ?u (Some ''/srv/projects/site'', Checkout ''dev'') \<noteq> None)"
    and u7: "stat ?u ''/srv/projects/site/.git''"
    by (simp_all add: exampleGitEnv_def)
  have c1: "getConfig_PROJECTS_DIR ?c = Inr ''/srv/projects''"
    and c2: "mkdir ?c ''/srv/projects'' = None"
    and c3: "''/srv/projects/site'' = git_path_join ?c ''/srv/projects'' ''site''"
    and c4: "''/srv/projects/site/.git'' = git_path_join ?c ''/srv/projects/site'' ''.git''"
    and c5: "False = stat ?c (git_path_join ?c ''/srv/projects/site/.git'' ''shallow'')"
    and c6: "False = (git ?c (Some ''/srv/projects/site'', Checkout ''dev'') \<noteq> None)"
    and c7: "\<not> stat ?c ''/srv/projects/site/.git''"
    by (simp_all add: exampleGitEnv_def)
  have ok: "\<forall>c \<in> set (updateCommands ''/srv/projects/site'' True True ''dev'').
              c \<noteq> (Some ''/srv/projects/site'', Checkout ''dev'') \<longrightarrow> git ?u c = None"
    by (simp add: exampleGitEnv_def updateCommands_def)
  note tu = ensureRepo_commands [OF u1 u2 u3 u4 u5 u6, of ?url]
  note tc = ensureRepo_commands [OF c1 c2 c3 c4 c5 c6, of ?url]
  have r1: "ensureRepo ?u ?url ''site'' ''dev''
              = (updateCommands ''/srv/projects/site'' True True ''dev'', Inr ''/srv/projects/site'')"
    using tu u7 ok by blast
  have r2: "\<not> list_ex isClone (fst (ensureRepo ?u ?url ''site'' ''dev''))"
    using tu u7 by blast
  have r3: "fst (ensureRepo ?c ?url ''site'' ''dev'')
              = [(None, Clone ?url ''/srv/projects/site'' [''-b'', ''dev''])]"
    using tc c7 by blast
  have r4: "list_ex isClone (fst (ensureRepo ?c ?url ''site'' ''dev''))"
    using tc c7 by blast
  have uc: "updateCommands ''/srv/projects/site'' True True ''dev'' =
       [(Some ''/srv/projects/site'',
          Raw [''config'', ''remote.origin.fetch'', ''+refs/heads/*:refs/remotes/origin/*'']),
         (Some ''/srv/projects/site'', Fetch [''origin'', ''--unshallow'', ''--prune'']),
         (Some ''/srv/projects/site'', Checkout ''dev''),
         (Some ''/srv/projects/site'', CheckoutBranch ''dev'' ''origin/dev''),
         (Some ''/srv/projects/site'', Reset [''--hard'', ''origin/dev''])]"
    by (simp add: updateCommands_def)
  have u6': "git ?u (Some ''/srv/projects/site'', Checkout ''dev'') \<noteq> None"
    using u6 by simp
  show ?thesis
    by (intro conjI u1 u2 u7 u6' r1 [unfolded uc] r2 c7 r3 r4)
qed

section \<open>Claims about the terminal service\<close>

lemma splitWs_head: "\<exists>ts. splitWs s = takeWhile (\<lambda>c. \<not> isWhitespace c) s # ts"
proof (induction s)
  case Nil
  show ?case by simp
next
  case (Cons c cs)
  then obtain ts where ts: "splitWs cs = takeWhile (\<lambda>c. \<not> isWhitespace c) cs # ts" ..
  show ?case
  proof (cases "isWhitespace c")
    case False
    then show ?thesis using ts by simp
  next
    case True
    show ?thesis
    proof (cases "cs \<noteq> [] \<and> isWhitespace (hd cs)")
      case False
      then show ?thesis using True by auto
    next
      case hd: True
      then have "takeWhile (\<lambda>c. \<not> isWhitespace c) cs = []"
        by (cases cs) simp_all
      then show ?thesis using True hd ts by simp
    qed
  qed
qed

lemma takeWhile_trailing:
  assumes "\<forall>c \<in> set w. isWhitespace c"
  shows "takeWhile (\<lambda>c. \<not> isWhitespace c) (p @ w) = takeWhile (\<lambda>c. \<not> isWhitespace c) p"
proof (cases "\<forall>c \<in> set p. \<not> isWhitespace c")
  case True
  have w: "takeWhile (\<lambda>c. \<not> isWhitespace c) w = []"
    using assms by (cases w) simp_all
  have pp: "takeWhile (\<lambda>c. \<not> isWhitespace c) p = p"
    using True by (simp add: takeWhile_eq_all_conv)
  have "takeWhile (\<lambda>c. \<not> isWhitespace c) (p @ w) = p @ takeWhile (\<lambda>c. \<not> isWhitespace c) w"
    using True by (simp add: takeWhile_append2)
  then show ?thesis unfolding pp w by simp
next
  case False
  then obtain x where "x \<in> set p" "\<not> \<not> isWhitespace x" by blast
  then show ?thesis by (rule takeWhile_append1)
qed

lemma trim_split:
  "dropWhile isWhitespace s = trim s @ rev (takeWhile isWhitespace (rev (dropWhile isWhitespace s)))"
proof -
  have "rev (takeWhile isWhitespace (rev d) @ dropWhile isWhitespace (rev d)) = d" for d
    by simp
  then show ?thesis unfolding trim_def rev_append by simp
qed

lemma firstToken_trim: "takeWhile (\<lambda>c. \<not> isWhitespace c) (trim s) = firstToken s"
proof -
  have "\<forall>c \<in> set (rev (takeWhile isWhitespace (rev (dropWhile isWhitespace s)))). isWhitespace c"
    by (auto dest: set_takeWhileD)
  from takeWhile_trailing [OF this, of "trim s"] show ?thesis
    unfolding firstToken_def by (simp flip: trim_split)
qed

lemma trim_Nil_iff: "trim s = [] \<longleftrightarrow> firstToken s = []"
proof (cases "dropWhile isWhitespace s")
  case Nil
  show ?thesis unfolding trim_def firstToken_def Nil by simp
next
  case (Cons x xs)
  then have x: "\<not> isWhitespace x"
    using hd_dropWhile [of isWhitespace s] by simp
  have "x \<in> set (rev (x # xs))" by simp
  then have "dropWhile isWhitespace (rev (x # xs)) \<noteq> []"
    using x by (metis dropWhile_eq_Nil_conv)
  then show ?thesis unfolding trim_def firstToken_def Cons using x by simp
qed

lemma validateCommand_eq:
  "validateCommand command =
     (if firstToken command = [] then Some (Error ''Command cannot be empty'')
      else if firstToken command \<notin> set ALLOWED_COMMANDS
           then Some (Error (notAllowedMessage (Some (firstToken command))))
           else None)"
proof (cases "firstToken command = []")
  case True
  then show ?thesis by (simp add: validateCommand_def trim_Nil_iff)
next
  case False
  obtain ts where "splitWs (trim command) = firstToken command # ts"
    using splitWs_head [of "trim command"] by (auto simp: firstToken_trim)
  then show ?thesis
    using False by (simp add: validateCommand_def trim_Nil_iff truthy_def)
qed

lemma startsWith_append: "startsWith (c @ v) c"
  by (induction c) simp_all

lemma str_includes_append: "str_includes (c @ v) c"
proof (cases "c @ v")
  case Nil
  then show ?thesis by simp
next
  case (Cons a l)
  have "startsWith (a # l) c" using startsWith_append [of c v] Cons by simp
  then show ?thesis unfolding Cons by simp
qed

lemma str_includes_prepend: "str_includes s c \<Longrightarrow> str_includes (u @ s) c"
proof (induction u)
  case Nil
  then show ?case by simp
next
  case (Cons a u)
  then show ?case by simp
qed

lemma str_includes_middle: "str_includes (u @ c @ v) c"
  by (rule str_includes_prepend) (rule str_includes_append)

lemma join_member:
  "c \<in> set xs \<Longrightarrow> \<exists>u v. join sep xs = u @ c @ v"
proof (induction sep xs rule: join.induct)
  case (1 sep)
  then show ?case by simp
next
  case (2 sep x)
  then have "join sep [x] = [] @ c @ []" by simp
  then show ?case by blast
next
  case (3 sep x y ys)
  show ?case
  proof (cases "c = x")
    case True
    then have "join sep (x # y # ys) = [] @ c @ (sep @ join sep (y # ys))" by simp
    then show ?thesis by blast
  next
    case False
    then have "c \<in> set (y # ys)" using 3 by simp
    then obtain u v where "join sep (y # ys) = u @ c @ v" using 3 by blast
    then have "join sep (x # y # ys) = (x @ sep @ u) @ c @ v" by simp
    then show ?thesis by blast
  qed
qed

lemma listsPermitted_notAllowedMessage: "listsPermitted (notAllowedMessage b)"
  unfolding listsPermitted_def list_all_iff
proof
  fix c assume "c \<in> set ALLOWED_COMMANDS"
  then have "c \<in> set (sort ALLOWED_COMMANDS)" by simp
  then obtain u v where "join '', '' (sort ALLOWED_COMMANDS) = u @ c @ v"
    using join_member by blast
  then have "\<exists>u'. notAllowedMessage b = u' @ c @ v"
    unfolding notAllowedMessage_def by (metis append.assoc)
  then show "str_includes (notAllowedMessage b) c"
    using str_includes_middle by metis
qed

lemma resolveContainer_no_exec:
  "ExecCreate c args \<notin> set (fst (resolveContainer env n))"
  by (simp add: resolveContainer_def split: sum.splits option.splits)

lemma resolveContainer_by_name:
  "inspectContainer env n = Inr r \<Longrightarrow> resolveContainer env n = ([InspectContainer n], Inr n)"
  by (simp add: resolveContainer_def)

lemma runInContainer_exec_args:
  assumes "ExecCreate c args \<in> set (fst (runInContainer env n command))"
  shows "args = [''/bin/sh'', ''-c'', command]"
proof -
  obtain t0 r0 where r: "resolveContainer env n = (t0, r0)" by (cases "resolveContainer env n")
  have t0: "ExecCreate c args \<notin> set t0"
    using resolveContainer_no_exec [of c args env n] r by simp
  show ?thesis
    using assms t0 unfolding runInContainer_def r
    by (auto simp: Let_def split: sum.splits if_splits StreamOutcome.splits)
qed

lemma runInContainer_running:
  assumes "inspectContainer env n = Inr True"
  shows "ExecCreate n [''/bin/sh'', ''-c'', command] \<in> set (fst (runInContainer env n command))"
  using assms unfolding runInContainer_def resolveContainer_by_name [OF assms]
  by (auto simp: Let_def split: sum.splits StreamOutcome.splits)

text \<open>
  Claim C6, amended. For a command whose first token is empty (the command is empty or
  blank) \<open>executeCommand\<close> throws \<open>Command cannot be empty\<close>; for a command whose first token
  is not empty and not in the allow-list it throws an error whose message lists every
  permitted command; in both cases no call has been made to the engine. For a command
  whose first token is in the allow-list the command goes to \<open>runInContainer\<close> unchanged:
  every exec created has the arguments \<open>/bin/sh -c command\<close>, and one is created when the
  container is found by its name and is running.
\<close>

theorem executeCommand_allow_list:
  "(firstToken command = [] \<longrightarrow>
      executeCommand env n command = ([], Inl (Error ''Command cannot be empty''))) \<and>
   (firstToken command \<noteq> [] \<and> firstToken command \<notin> set ALLOWED_COMMANDS \<longrightarrow>
      executeCommand env n command
        = ([], Inl (Error (notAllowedMessage (Some (firstToken command))))) \<and>
      listsPermitted (notAllowedMessage (Some (firstToken command)))) \<and>
   (firstToken command \<in> set ALLOWED_COMMANDS \<longrightarrow>
      executeCommand env n command = runInContainer env n command \<and>
      (\<forall>c args. ExecCreate c args \<in> set (fst (executeCommand env n command)) \<longrightarrow>
         args = [''/bin/sh'', ''-c'', command]) \<and>
      (inspectContainer env n = Inr True \<longrightarrow>
         ExecCreate n [''/bin/sh'', ''-c'', command] \<in> set (fst (executeCommand env n command))))"
proof (intro conjI impI)
  assume "firstToken command = []"
  then show "executeCommand env n command = ([], Inl (Error ''Command cannot be empty''))"
    by (simp add: executeCommand_def validateCommand_eq)
next
  assume a: "firstToken command \<noteq> [] \<and> firstToken command \<notin> set ALLOWED_COMMANDS"
  then show "executeCommand env n command
        = ([], Inl (Error (notAllowedMessage (Some (firstToken command)))))"
    by (simp add: executeCommand_def validateCommand_eq)
  show "listsPermitted (notAllowedMessage (Some (firstToken command)))"
    by (rule listsPermitted_notAllowedMessage)
next
  assume a: "firstToken command \<in> set ALLOWED_COMMANDS"
  have ne: "firstToken command \<noteq> []"
  proof
    assume "firstToken command = []"
    then have "[] \<in> set ALLOWED_COMMANDS" using a by simp
    then show False by (simp add: ALLOWED_COMMANDS_def)
  qed
  show e: "executeCommand env n command = runInContainer env n command"
    using a ne by (simp add: executeCommand_def validateCommand_eq)
  show "\<forall>c args. ExecCreate c args \<in> set (fst (executeCommand env n command)) \<longrightarrow>
         args = [''/bin/sh'', ''-c'', command]"
    unfolding e using runInContainer_exec_args by blast
  assume "inspectContainer env n = Inr True"
  then show "ExecCreate n [''/bin/sh'', ''-c'', command] \<in> set (fst (executeCommand env n command))"
    unfolding e by (rule runInContainer_running)
qed

lemma isWhitespace_simps:
  "isWhitespace CHR '' ''" "\<not> isWhitespace CHR ''r''" "\<not> isWhitespace CHR ''m''"
  "\<not> isWhitespace CHR ''l''" "\<not> isWhitespace CHR ''s''"
  by (simp_all add: isWhitespace_def)

lemma firstToken_examples:
  "firstToken [] = []" "firstToken ''rm -rf /'' = ''rm''" "firstToken ''ls -la'' = ''ls''"
  by (simp_all add: firstToken_def isWhitespace_simps)

theorem executeCommand_allow_list_witness:
  "firstToken [] = [] \<and>
   executeCommand exampleTerminalEnv ''dropdeploy-site'' []
     = ([], Inl (Error ''Command cannot be empty'')) \<and>
   firstToken ''rm -rf /'' = ''rm'' \<and> ''rm'' \<notin> set ALLOWED_COMMANDS \<and>
   executeCommand exampleTerminalEnv ''dropdeploy-site'' ''rm -rf /''
     = ([], Inl (Error (notAllowedMessage (Some ''rm'')))) \<and>
   listsPermitted (notAllowedMessage (Some ''rm'')) \<and>
   firstToken ''ls -la'' = ''ls'' \<and> ''ls'' \<in> set ALLOWED_COMMANDS \<and>
   inspectContainer exampleTerminalEnv ''dropdeploy-site'' = Inr True \<and>
   executeCommand exampleTerminalEnv ''dropdeploy-site'' ''ls -la''
     = runInContainer exampleTerminalEnv ''dropdeploy-site'' ''ls -la'' \<and>
   ExecCreate ''dropdeploy-site'' [''/bin/sh'', ''-c'', ''ls -la'']
     \<in> set (fst (executeCommand exampleTerminalEnv ''dropdeploy-site'' ''ls -la'')) \<and>
   snd (runInContainer exampleTerminalEnv ''dropdeploy-site'' ''ls -la'')
     = Inr \<lparr>stdout = ''total 0'', stderr = [], exitCode = 0\<rparr>"
proof -
  note f = firstToken_examples
  have rm: "''rm'' \<notin> set ALLOWED_COMMANDS" and ls: "''ls'' \<in> set ALLOWED_COMMANDS"
    by (simp_all add: ALLOWED_COMMANDS_def)
  have i: "inspectContainer exampleTerminalEnv ''dropdeploy-site'' = Inr True"
    by (simp add: exampleTerminalEnv_def)
  note t0 = executeCommand_allow_list [of "[]" exampleTerminalEnv "''dropdeploy-site''"]
  note t1 = executeCommand_allow_list [of "''rm -rf /''" exampleTerminalEnv "''dropdeploy-site''",
      unfolded f]
  note t2 = executeCommand_allow_list [of "''ls -la''" exampleTerminalEnv "''dropdeploy-site''",
      unfolded f]
  have r0: "executeCommand exampleTerminalEnv ''dropdeploy-site'' []
     = ([], Inl (Error ''Command cannot be empty''))"
    using t0 [THEN conjunct1] f(1) by simp
  have r1: "executeCommand exampleTerminalEnv ''dropdeploy-site'' ''rm -rf /''
       = ([], Inl (Error (notAllowedMessage (Some ''rm'')))) \<and>
     listsPermitted (notAllowedMessage (Some ''rm''))"
    using t1 [THEN conjunct2, THEN conjunct1] rm by simp
  note t2a = t2 [THEN conjunct2, THEN conjunct2, THEN mp, OF ls]
  note r2a = t2a [THEN conjunct1]
  note r2c = t2a [THEN conjunct2, THEN conjunct2, THEN mp, OF i]
  have r3: "snd (runInContainer exampleTerminalEnv ''dropdeploy-site'' ''ls -la'')
     = Inr \<lparr>stdout = ''total 0'', stderr = [], exitCode = 0\<rparr>"
    by (simp add: runInContainer_def resolveContainer_def exampleTerminalEnv_def Let_def)
  show ?thesis
    by (intro conjI f r0 rm r1 [THEN conjunct1] r1 [THEN conjunct2] ls i
        r2a r2c r3)
qed

text \<open>
  Claim C6 as stated fails for the empty command: its first token is not in the
  allow-list, and the error thrown, before any call to the engine, is
  \<open>Command cannot be empty\<close>, which does not list the permitted commands.
\<close>

theorem empty_command_counterexample:
  "firstToken [] \<notin> set ALLOWED_COMMANDS \<and>
   executeCommand exampleTerminalEnv ''dropdeploy-site'' []
     = ([], Inl (Error ''Command cannot be empty'')) \<and>
   \<not> listsPermitted ''Command cannot be empty''"
  by (simp add: firstToken_def executeCommand_def validateCommand_def trim_def
      listsPermitted_def ALLOWED_COMMANDS_def)

end
